theory Spec2Isabelle
  imports Main
begin

section \<open>PySysdDeploy: a shallow embedding of \<^verbatim>\<open>src/main.py\<close>\<close>

text \<open>
  Python strings are modelled as \<^typ>\<open>string\<close>; a \<^typ>\<open>char\<close> stands for the code
  point of the same number, so the model covers the strings whose code points lie in
  U+0000..U+00FF.
\<close>

subsection \<open>Python strings\<close>

text \<open>
  \<^verbatim>\<open>str.strip()\<close> removes the white space of Unicode at both ends; in U+0000..U+00FF
  these are the code points 9 to 13, 28 to 32, 133 and 160.
\<close>

definition py_isspace :: "char \<Rightarrow> bool" where
  "py_isspace c = ((of_char c :: nat) \<in> {9, 10, 11, 12, 13, 28, 29, 30, 31, 32, 133, 160})"

definition py_strip :: "string \<Rightarrow> string" where
  "py_strip s = rev (dropWhile py_isspace (rev (dropWhile py_isspace s)))"

text \<open>
  \<^verbatim>\<open>str.lower()\<close>: the capital letters of U+0000..U+00FF are A to Z and U+00C0 to U+00DE
  without the multiplication sign U+00D7; each is 32 below its small letter.
\<close>

definition py_lower_char :: "char \<Rightarrow> char" where
  "py_lower_char c =
     (let n = (of_char c :: nat)
      in if (65 \<le> n \<and> n \<le> 90) \<or> (192 \<le> n \<and> n \<le> 222 \<and> n \<noteq> 215) then char_of (n + 32) else c)"

definition py_lower :: "string \<Rightarrow> string" where
  "py_lower s = map py_lower_char s"

text \<open>
  \<^verbatim>\<open>str.isdigit()\<close> holds for a non-empty string of digit characters. Python counts the
  superscript digits U+00B2, U+00B3 and U+00B9 as digits; \<^verbatim>\<open>int()\<close> accepts decimal
  digits only and raises \<^verbatim>\<open>ValueError\<close> on the superscripts.
\<close>

definition is_decimal_char :: "char \<Rightarrow> bool" where
  "is_decimal_char c = (48 \<le> (of_char c :: nat) \<and> (of_char c :: nat) \<le> 57)"

definition is_digit_char :: "char \<Rightarrow> bool" where
  "is_digit_char c = (is_decimal_char c \<or> (of_char c :: nat) \<in> {178, 179, 185})"

definition py_isdigit :: "string \<Rightarrow> bool" where
  "py_isdigit s = (s \<noteq> [] \<and> list_all is_digit_char s)"

datatype py_error =
    EOFError
  | ValueError
  | TypeError
  | AttributeError
  | KeyError string
  | FileNotFoundError string
  | FileExistsError string
  | IsADirectoryError string
  | NotADirectoryError string
  | PermissionError string
  | OSError nat string
  | JSONDecodeError
  | TemplateSyntaxError
  | IndexError
  | CalledProcessError "string list" nat
  | SystemExit int

definition decimal_value :: "string \<Rightarrow> int" where
  "decimal_value s = foldl (\<lambda>acc c. 10 * acc + (int (of_char c) - 48)) 0 s"

text \<open>
  \<^verbatim>\<open>int(s)\<close> for a string that passed \<^verbatim>\<open>s.isdigit()\<close>: the program calls \<^verbatim>\<open>int\<close> on
  such strings only. They hold no sign, blank or underscore. The bound that CPython puts on
  the number of digits \<^verbatim>\<open>int\<close> converts is left out.
\<close>

definition py_int :: "string \<Rightarrow> py_error + int" where
  "py_int s = (if s \<noteq> [] \<and> list_all is_decimal_char s then Inr (decimal_value s) else Inl ValueError)"

fun str_nat :: "nat \<Rightarrow> string" where
  "str_nat n = (if n < 10 then [char_of (48 + n)] else str_nat (n div 10) @ [char_of (48 + n mod 10)])"

declare str_nat.simps [simp del]

definition split_on :: "char \<Rightarrow> string \<Rightarrow> string list" where
  "split_on sep s =
     (case foldr (\<lambda>c (cur, rest). if c = sep then ([], cur # rest) else (c # cur, rest)) s ([], [])
      of (cur, rest) \<Rightarrow> cur # rest)"

fun join_with :: "string \<Rightarrow> string list \<Rightarrow> string" where
  "join_with sep [] = []"
| "join_with sep [x] = x"
| "join_with sep (x # y # ys) = x @ sep @ join_with sep (y # ys)"

text \<open>
  \<^verbatim>\<open>repr\<close> of a string: single quotes, unless the string holds a single quote and no double
  quote; the quote character and the backslash are escaped, tab, line feed and carriage
  return are written \<^verbatim>\<open>\t\<close>, \<^verbatim>\<open>\n\<close>, \<^verbatim>\<open>\r\<close>, and every other non-printable code
  point (below 32, 127 to 160, 173) as \<^verbatim>\<open>\xhh\<close>.
\<close>

definition hex_digit :: "nat \<Rightarrow> char" where
  "hex_digit n = (if n < 10 then char_of (48 + n) else char_of (87 + n))"

definition repr_char :: "char \<Rightarrow> char \<Rightarrow> string" where
  "repr_char q c =
     (let n = (of_char c :: nat)
      in if c = q \<or> c = CHR 0x5C then [CHR 0x5C, c]
         else if n = 9 then [CHR 0x5C, CHR ''t'']
         else if n = 10 then [CHR 0x5C, CHR ''n'']
         else if n = 13 then [CHR 0x5C, CHR ''r'']
         else if n < 32 \<or> (127 \<le> n \<and> n \<le> 160) \<or> n = 173
           then [CHR 0x5C, CHR ''x'', hex_digit (n div 16), hex_digit (n mod 16)]
         else [c])"

definition py_repr :: "string \<Rightarrow> string" where
  "py_repr s =
     (let q = (if CHR 0x27 \<in> set s \<and> CHR 0x22 \<notin> set s then CHR 0x22 else CHR 0x27)
      in [q] @ concat (map (repr_char q) s) @ [q])"

subsection \<open>Values of a service configuration\<close>

text \<open>
  \<^verbatim>\<open>service_info\<close> is a Python dict from field names to strings, except
  \<^verbatim>\<open>additional_env_vars\<close>, which is a list of strings. A dict keeps its keys in insertion
  order, so it is an association list with distinct keys; \<^verbatim>\<open>d[k] = v\<close> replaces the value of
  a present key in place and appends a new key.
\<close>

datatype jval = JStr string | JList "string list"

type_synonym service_info = "(string \<times> jval) list"

fun dict_set :: "service_info \<Rightarrow> string \<Rightarrow> jval \<Rightarrow> service_info" where
  "dict_set [] k v = [(k, v)]"
| "dict_set ((k', v') # d) k v = (if k' = k then (k, v) # d else (k', v') # dict_set d k v)"

definition dict_index :: "service_info \<Rightarrow> string \<Rightarrow> py_error + jval" where
  "dict_index d k = (case map_of d k of None \<Rightarrow> Inl (KeyError k) | Some v \<Rightarrow> Inr v)"

text \<open>\<^verbatim>\<open>str(v)\<close>, as an f-string and \<^verbatim>\<open>{{ v }}\<close> of a template format a value.\<close>

fun py_str :: "jval \<Rightarrow> string" where
  "py_str (JStr s) = s"
| "py_str (JList xs) = ''['' @ join_with '', '' (map py_repr xs) @ '']''"

fun py_truthy :: "jval option \<Rightarrow> bool" where
  "py_truthy None = False"
| "py_truthy (Some (JStr s)) = (s \<noteq> [])"
| "py_truthy (Some (JList xs)) = (xs \<noteq> [])"


subsection \<open>The process environment and the world\<close>

text \<open>
  What the program reads from its environment and never changes: the home directory that
  \<^verbatim>\<open>os.path.expanduser\<close> puts for \<^verbatim>\<open>~\<close>, the home directories of other accounts
  (\<^verbatim>\<open>~name\<close>), the current directory, the name \<^verbatim>\<open>getpass.getuser()\<close> returns, the exit
  status and standard output of each external command line, and the text \<^verbatim>\<open>str(e)\<close> of an
  exception.
\<close>

record env =
  home_dir :: string
  pw_dir :: "string \<Rightarrow> string option"
  cwd :: string
  login :: string
  run_result :: "string list \<Rightarrow> nat \<times> string"
  exc_str :: "py_error \<Rightarrow> string"

text \<open>
  A file holds a JSON document, kept as the value \<^verbatim>\<open>json.load\<close> returns for it, or other
  text: \<^verbatim>\<open>json.dump\<close> followed by \<^verbatim>\<open>json.load\<close> is taken to give back a dict of strings
  and lists of strings as it was. A node of the file system is a file, which the process may
  read and write, a directory, in which it may look up and create entries, or a directory
  that is locked: the process has no permission for it.
\<close>

datatype file_data = Text_data string | Json_data service_info

datatype node = File file_data | Dir | Locked_dir

text \<open>
  The text of a file. For a JSON document it is what \<^verbatim>\<open>json.dump(d, f, indent=2)\<close> writes:
  in a string the backslash, the double quote and the control characters with a short escape
  are escaped, and every other code point outside U+0020..U+007E is written \<^verbatim>\<open>\u00hh\<close>.
\<close>

definition json_char :: "char \<Rightarrow> string" where
  "json_char c =
     (let n = (of_char c :: nat)
      in if c = CHR 0x5C \<or> c = CHR 0x22 then [CHR 0x5C, c]
         else if n = 8 then [CHR 0x5C, CHR ''b'']
         else if n = 12 then [CHR 0x5C, CHR ''f'']
         else if n = 10 then [CHR 0x5C, CHR ''n'']
         else if n = 13 then [CHR 0x5C, CHR ''r'']
         else if n = 9 then [CHR 0x5C, CHR ''t'']
         else if n < 32 \<or> 126 < n
           then [CHR 0x5C, CHR ''u'', CHR ''0'', CHR ''0'', hex_digit (n div 16), hex_digit (n mod 16)]
         else [c])"

definition json_string :: "string \<Rightarrow> string" where
  "json_string s = [CHR 0x22] @ concat (map json_char s) @ [CHR 0x22]"

fun json_value :: "jval \<Rightarrow> string" where
  "json_value (JStr s) = json_string s"
| "json_value (JList xs) =
     (if xs = [] then ''[]''
      else ''['' @ [CHR 0x0A] @
           join_with ('','' @ [CHR 0x0A]) (map (\<lambda>x. ''    '' @ json_string x) xs) @
           [CHR 0x0A] @ ''  ]'')"

definition json_dumps :: "service_info \<Rightarrow> string" where
  "json_dumps d =
     (if d = [] then ''{}''
      else ''{'' @ [CHR 0x0A] @
           join_with ('','' @ [CHR 0x0A])
             (map (\<lambda>(k, v). ''  '' @ json_string k @ '': '' @ json_value v) d) @
           [CHR 0x0A] @ ''}'')"

fun file_text :: "file_data \<Rightarrow> string" where
  "file_text (Text_data t) = t"
| "file_text (Json_data d) = json_dumps d"

text \<open>
  The world the program changes: the nodes of the file system, each under the path of its
  names from the root, the lines still to be read from standard input, the lines printed so
  far (a prompt of \<^verbatim>\<open>input\<close> is one of them) and the external commands run so far.
  External commands leave the modelled files as they are.
\<close>

record world =
  files :: "string \<Rightarrow> node option"
  stdin :: "string list"
  stdout :: "string list"
  commands :: "string list list"

type_synonym 'a prog = "world \<Rightarrow> (py_error + 'a) \<times> world"

definition ok :: "'a \<Rightarrow> 'a prog" where
  "ok x w = (Inr x, w)"

definition throw :: "py_error \<Rightarrow> 'a prog" where
  "throw e w = (Inl e, w)"

definition seq :: "'a prog \<Rightarrow> ('a \<Rightarrow> 'b prog) \<Rightarrow> 'b prog" where
  "seq m f w = (case m w of (Inl e, w') \<Rightarrow> (Inl e, w') | (Inr x, w') \<Rightarrow> f x w')"

definition lift :: "py_error + 'a \<Rightarrow> 'a prog" where
  "lift r w = (r, w)"

definition print :: "string \<Rightarrow> unit prog" where
  "print s w = (Inr (), w\<lparr>stdout := stdout w @ [s]\<rparr>)"

fun print_all :: "string list \<Rightarrow> unit prog" where
  "print_all [] = ok ()"
| "print_all (s # ss) = seq (print s) (\<lambda>_. print_all ss)"

text \<open>\<^verbatim>\<open>input(prompt)\<close>: prints the prompt and reads one line; \<^verbatim>\<open>EOFError\<close> at the end of the input.\<close>

definition input_line :: "string \<Rightarrow> string prog" where
  "input_line prompt w =
     (case stdin w of
        [] \<Rightarrow> (Inl EOFError, w\<lparr>stdout := stdout w @ [prompt]\<rparr>)
      | l # ls \<Rightarrow> (Inr l, w\<lparr>stdin := ls, stdout := stdout w @ [prompt]\<rparr>))"

text \<open>
  \<^verbatim>\<open>subprocess.run(argv)\<close> and \<^verbatim>\<open>subprocess.run(argv, check=True)\<close>, which raises
  \<^verbatim>\<open>CalledProcessError\<close> on an exit status other than 0.
\<close>

definition run :: "env \<Rightarrow> string list \<Rightarrow> (nat \<times> string) prog" where
  "run E argv w = (Inr (run_result E argv), w\<lparr>commands := commands w @ [argv]\<rparr>)"

definition run_checked :: "env \<Rightarrow> string list \<Rightarrow> (nat \<times> string) prog" where
  "run_checked E argv =
     seq (run E argv) (\<lambda>r. if fst r \<noteq> 0 then throw (CalledProcessError argv (fst r)) else ok r)"

subsection \<open>Exception handlers\<close>

definition try_except :: "'a prog \<Rightarrow> (py_error \<Rightarrow> bool) \<Rightarrow> (py_error \<Rightarrow> 'a prog) \<Rightarrow> 'a prog" where
  "try_except body caught handler w =
     (case body w of
        (Inl e, w') \<Rightarrow> if caught e then handler e w' else (Inl e, w')
      | (Inr x, w') \<Rightarrow> (Inr x, w'))"

text \<open>\<^verbatim>\<open>except Exception\<close> catches every exception of the model but \<^verbatim>\<open>SystemExit\<close>.\<close>

fun is_exception :: "py_error \<Rightarrow> bool" where
  "is_exception (SystemExit _) = False"
| "is_exception _ = True"

fun is_called_process_error :: "py_error \<Rightarrow> bool" where
  "is_called_process_error (CalledProcessError _ _) = True"
| "is_called_process_error _ = False"

text \<open>
  \<^verbatim>\<open>except OSError\<close>, \<^verbatim>\<open>except FileExistsError\<close> and \<^verbatim>\<open>except ValueError\<close>; a
  \<^verbatim>\<open>JSONDecodeError\<close> is a \<^verbatim>\<open>ValueError\<close>.
\<close>

fun is_os_error :: "py_error \<Rightarrow> bool" where
  "is_os_error (FileNotFoundError _) = True"
| "is_os_error (FileExistsError _) = True"
| "is_os_error (IsADirectoryError _) = True"
| "is_os_error (NotADirectoryError _) = True"
| "is_os_error (PermissionError _) = True"
| "is_os_error (OSError _ _) = True"
| "is_os_error _ = False"

fun is_file_exists_error :: "py_error \<Rightarrow> bool" where
  "is_file_exists_error (FileExistsError _) = True"
| "is_file_exists_error _ = False"

fun is_value_error :: "py_error \<Rightarrow> bool" where
  "is_value_error ValueError = True"
| "is_value_error JSONDecodeError = True"
| "is_value_error _ = False"

subsection \<open>Paths\<close>

definition rstrip_slash :: "string \<Rightarrow> string" where
  "rstrip_slash p = rev (dropWhile (\<lambda>c. c = CHR ''/'') (rev p))"

definition starts_with_slash :: "string \<Rightarrow> bool" where
  "starts_with_slash p = (case p of [] \<Rightarrow> False | c # _ \<Rightarrow> c = CHR ''/'')"

text \<open>\<^verbatim>\<open>os.path.join(a, *p)\<close> of \<^verbatim>\<open>posixpath\<close>.\<close>

definition path_join2 :: "string \<Rightarrow> string \<Rightarrow> string" where
  "path_join2 path b =
     (if starts_with_slash b then b
      else if path = [] \<or> last path = CHR ''/'' then path @ b
      else path @ ''/'' @ b)"

definition path_join :: "string \<Rightarrow> string list \<Rightarrow> string" where
  "path_join a ps = foldl path_join2 a ps"

text \<open>\<^verbatim>\<open>os.path.expanduser\<close> of \<^verbatim>\<open>posixpath\<close>.\<close>

definition expanduser :: "env \<Rightarrow> string \<Rightarrow> string" where
  "expanduser E p =
     (case p of
        [] \<Rightarrow> p
      | c # cs \<Rightarrow>
          if c \<noteq> CHR ''~'' then p
          else (let name = takeWhile (\<lambda>c. c \<noteq> CHR ''/'') cs;
                    rest = dropWhile (\<lambda>c. c \<noteq> CHR ''/'') cs
                in case (if name = [] then Some (home_dir E) else pw_dir E name) of
                     None \<Rightarrow> p
                   | Some userhome \<Rightarrow>
                       (let r = rstrip_slash userhome @ rest in if r = [] then ''/'' else r)))"

text \<open>\<^verbatim>\<open>os.path.normpath\<close> and \<^verbatim>\<open>os.path.abspath\<close> of \<^verbatim>\<open>posixpath\<close>.\<close>

definition norm_step :: "bool \<Rightarrow> string list \<Rightarrow> string \<Rightarrow> string list" where
  "norm_step rooted new_comps part =
     (if part = [] \<or> part = ''.'' then new_comps
      else if part \<noteq> ''..'' \<or> (\<not> rooted \<and> new_comps = []) \<or> (new_comps \<noteq> [] \<and> last new_comps = ''..'')
        then new_comps @ [part]
      else if new_comps \<noteq> [] then butlast new_comps
      else new_comps)"

definition normpath :: "string \<Rightarrow> string" where
  "normpath path =
     (if path = [] then ''.''
      else (let initial_slashes =
                  (if \<not> starts_with_slash path then 0
                   else if take 2 path = ''//'' \<and> take 3 path \<noteq> ''///'' then 2 else (1::nat));
                comps = foldl (norm_step (initial_slashes \<noteq> 0)) [] (split_on (CHR ''/'') path);
                r = replicate initial_slashes (CHR ''/'') @ join_with ''/'' comps
            in if r = [] then ''.'' else r))"

definition abspath :: "env \<Rightarrow> string \<Rightarrow> string" where
  "abspath E path = normpath (if starts_with_slash path then path else path_join (cwd E) [path])"

text \<open>\<^verbatim>\<open>os.path.split\<close> of \<^verbatim>\<open>posixpath\<close>.\<close>

definition path_split :: "string \<Rightarrow> string \<times> string" where
  "path_split p =
     (let head = rev (dropWhile (\<lambda>c. c \<noteq> CHR ''/'') (rev p));
          tail = rev (takeWhile (\<lambda>c. c \<noteq> CHR ''/'') (rev p))
      in (if head \<noteq> [] \<and> \<not> list_all (\<lambda>c. c = CHR ''/'') head then rstrip_slash head else head,
          tail))"

text \<open>
  \<^verbatim>\<open>str(Path(s))\<close> of \<^verbatim>\<open>pathlib\<close>: the root is kept (two slashes at the front, and no
  more, are a root of their own), empty components and \<^verbatim>\<open>.\<close> components are dropped, and
  with them a slash at the end, \<^verbatim>\<open>..\<close> is kept, and a path without root and components is
  \<^verbatim>\<open>.\<close>.
\<close>

definition pathlib_str :: "string \<Rightarrow> string" where
  "pathlib_str s =
     (let root = (if \<not> starts_with_slash s then []
                  else if take 2 s = ''//'' \<and> take 3 s \<noteq> ''///'' then ''//'' else ''/'');
          parts = filter (\<lambda>x. x \<noteq> [] \<and> x \<noteq> ''.'') (split_on (CHR ''/'') s)
      in if root = [] \<and> parts = [] then ''.'' else root @ join_with ''/'' parts)"

subsection \<open>The file system\<close>

text \<open>
  The file system is the one of Linux, without links: a file can be read and written, a
  directory can be searched and changed unless it is locked, a name has at most 255 bytes
  and a path fewer than 4096. A system call that does not succeed answers with an error
  number; these are the ones the model has.
\<close>

datatype os_error = ENOENT | ENOTDIR | EISDIR | EEXIST | EACCES | ENAMETOOLONG

text \<open>
  A node is kept under its key, the names from the root down to it. The root is a directory
  that is not locked. The current directory is given by the path \<^verbatim>\<open>os.getcwd()\<close> returns.
\<close>

definition key_path :: "string list \<Rightarrow> string" where
  "key_path k = ''/'' @ join_with ''/'' k"

definition node_at :: "world \<Rightarrow> string list \<Rightarrow> node option" where
  "node_at w k = (if k = [] then Some Dir else files w (key_path k))"

definition cwd_key :: "env \<Rightarrow> string list" where
  "cwd_key E = filter (\<lambda>c. c \<noteq> []) (split_on (CHR ''/'') (cwd E))"

text \<open>
  The length of a path in bytes: Python hands a path to the system in UTF-8, in which a code
  point from U+0080 to U+00FF takes two bytes.
\<close>

definition byte_length :: "string \<Rightarrow> nat" where
  "byte_length s = length s + length (filter (\<lambda>c. 128 \<le> (of_char c :: nat)) s)"

text \<open>
  Path resolution, component by component, from the directory with key \<open>k\<close>. An empty
  component (a slash after a slash, or at the end) is skipped. Every other component is
  looked up in the directory reached so far, which the process must be allowed to search:
  \<^verbatim>\<open>.\<close> stays there, \<^verbatim>\<open>..\<close> goes to the parent, which for the root is the root, and a
  name is refused when it has more than 255 bytes. A name that is not there ends the
  resolution: it is free when nothing but slashes follows it, and the path names nothing
  otherwise. A file must be the end of the path. The result is the node found with its key,
  or the key of the free name.

  What a slash after the last name means depends on the call. \<^verbatim>\<open>open\<close> for writing, which
  would create the file, answers \<^verbatim>\<open>EISDIR\<close> for it before it looks the name up; \<^verbatim>\<open>mkdir\<close>
  takes no notice of it; every other call answers \<^verbatim>\<open>ENOTDIR\<close> when the name is the one of
  a file.
\<close>

datatype aim = To_find | To_create_file | To_create_dir

datatype found = Node "string list" node | Free "string list"

fun walk :: "aim \<Rightarrow> world \<Rightarrow> string list \<Rightarrow> string list \<Rightarrow> os_error + found" where
  "walk aim w k [] = (case node_at w k of None \<Rightarrow> Inl ENOENT | Some n \<Rightarrow> Inr (Node k n))"
| "walk aim w k (c # cs) =
     (if c = [] then walk aim w k cs
      else
        (case node_at w k of
           None \<Rightarrow> Inl ENOENT
         | Some (File d) \<Rightarrow> Inl ENOTDIR
         | Some Locked_dir \<Rightarrow> Inl EACCES
         | Some Dir \<Rightarrow>
             if c = ''.'' then walk aim w k cs
             else if c = ''..'' then walk aim w (butlast k) cs
             else if aim = To_create_file \<and> cs \<noteq> [] \<and> list_all (\<lambda>x. x = []) cs then Inl EISDIR
             else if 255 < byte_length c then Inl ENAMETOOLONG
             else
               (case node_at w (k @ [c]) of
                  None \<Rightarrow> if list_all (\<lambda>x. x = []) cs then Inr (Free (k @ [c])) else Inl ENOENT
                | Some (File d) \<Rightarrow>
                    if cs = [] \<or> (aim = To_create_dir \<and> list_all (\<lambda>x. x = []) cs)
                    then Inr (Node (k @ [c]) (File d))
                    else Inl ENOTDIR
                | Some Dir \<Rightarrow> walk aim w (k @ [c]) cs
                | Some Locked_dir \<Rightarrow> walk aim w (k @ [c]) cs)))"

text \<open>
  The look-up of a path: a path of 4096 bytes or more is refused, the empty path names
  nothing, a path that begins with a slash is resolved from the root and every other path
  from the current directory.
\<close>

definition lookup :: "aim \<Rightarrow> env \<Rightarrow> world \<Rightarrow> string \<Rightarrow> os_error + found" where
  "lookup aim E w p =
     (if 4096 \<le> byte_length p then Inl ENAMETOOLONG
      else if p = [] then Inl ENOENT
      else walk aim w (if starts_with_slash p then [] else cwd_key E) (split_on (CHR ''/'') p))"

text \<open>The system call \<^verbatim>\<open>stat\<close>.\<close>

definition sys_stat :: "env \<Rightarrow> world \<Rightarrow> string \<Rightarrow> os_error + node" where
  "sys_stat E w p =
     (case lookup To_find E w p of
        Inl e \<Rightarrow> Inl e
      | Inr (Free k) \<Rightarrow> Inl ENOENT
      | Inr (Node k n) \<Rightarrow> Inr n)"

text \<open>
  The exception Python raises for an error number; for \<^verbatim>\<open>ENAMETOOLONG\<close>, which is number
  36, it is a plain \<^verbatim>\<open>OSError\<close>.
\<close>

fun os_exception :: "os_error \<Rightarrow> string \<Rightarrow> py_error" where
  "os_exception ENOENT p = FileNotFoundError p"
| "os_exception ENOTDIR p = NotADirectoryError p"
| "os_exception EISDIR p = IsADirectoryError p"
| "os_exception EEXIST p = FileExistsError p"
| "os_exception EACCES p = PermissionError p"
| "os_exception ENAMETOOLONG p = OSError 36 p"

text \<open>
  \<^verbatim>\<open>os.stat(p)\<close>. Python refuses a path with a NUL character in it with \<^verbatim>\<open>ValueError\<close>
  before it asks the system; so do \<^verbatim>\<open>open\<close> and \<^verbatim>\<open>os.mkdir\<close>.
\<close>

definition os_stat :: "env \<Rightarrow> string \<Rightarrow> node prog" where
  "os_stat E p w =
     (if CHR 0x00 \<in> set p then (Inl ValueError, w)
      else
        (case sys_stat E w p of
           Inl e \<Rightarrow> (Inl (os_exception e p), w)
         | Inr n \<Rightarrow> (Inr n, w)))"

text \<open>
  \<^verbatim>\<open>os.path.exists\<close> and \<^verbatim>\<open>os.path.isdir\<close> of \<^verbatim>\<open>genericpath\<close>: \<^verbatim>\<open>os.stat\<close> in a
  \<^verbatim>\<open>try\<close> with \<^verbatim>\<open>except (OSError, ValueError): return False\<close>.
\<close>

definition os_path_exists :: "env \<Rightarrow> string \<Rightarrow> bool prog" where
  "os_path_exists E p =
     try_except (seq (os_stat E p) (\<lambda>st. ok True))
       (\<lambda>e. is_os_error e \<or> is_value_error e)
       (\<lambda>e. ok False)"

definition os_path_isdir :: "env \<Rightarrow> string \<Rightarrow> bool prog" where
  "os_path_isdir E p =
     try_except (seq (os_stat E p) (\<lambda>st. ok (st = Dir \<or> st = Locked_dir)))
       (\<lambda>e. is_os_error e \<or> is_value_error e)
       (\<lambda>e. ok False)"

text \<open>
  \<^verbatim>\<open>Path.exists()\<close> and \<^verbatim>\<open>Path.is_file()\<close> of \<^verbatim>\<open>pathlib\<close>, as they are before Python
  3.14: \<^verbatim>\<open>self.stat()\<close> in a \<^verbatim>\<open>try\<close> whose handler for \<^verbatim>\<open>OSError\<close> raises the exception
  again unless \<^verbatim>\<open>_ignore_error\<close> holds for it, which it does for the error numbers
  \<^verbatim>\<open>ENOENT\<close> and \<^verbatim>\<open>ENOTDIR\<close> (and for \<^verbatim>\<open>EBADF\<close> and \<^verbatim>\<open>ELOOP\<close>, which the model has not),
  and whose handler for \<^verbatim>\<open>ValueError\<close> returns \<^verbatim>\<open>False\<close>.
\<close>

fun ignore_error :: "py_error \<Rightarrow> bool" where
  "ignore_error (FileNotFoundError _) = True"
| "ignore_error (NotADirectoryError _) = True"
| "ignore_error _ = False"

definition path_exists :: "env \<Rightarrow> string \<Rightarrow> bool prog" where
  "path_exists E path =
     try_except (seq (os_stat E path) (\<lambda>st. ok True))
       (\<lambda>e. is_os_error e \<or> is_value_error e)
       (\<lambda>e. if is_os_error e \<and> \<not> ignore_error e then throw e else ok False)"

definition path_is_file :: "env \<Rightarrow> string \<Rightarrow> bool prog" where
  "path_is_file E path =
     try_except (seq (os_stat E path) (\<lambda>st. ok (case st of File d \<Rightarrow> True | _ \<Rightarrow> False)))
       (\<lambda>e. is_os_error e \<or> is_value_error e)
       (\<lambda>e. if is_os_error e \<and> \<not> ignore_error e then throw e else ok False)"

text \<open>
  \<^verbatim>\<open>open(p, 'w')\<close> with the write that follows it: the file is created under a free name
  and replaced when it is there.
\<close>

definition write_file :: "env \<Rightarrow> string \<Rightarrow> file_data \<Rightarrow> unit prog" where
  "write_file E p d w =
     (if CHR 0x00 \<in> set p then (Inl ValueError, w)
      else
        (case lookup To_create_file E w p of
           Inl e \<Rightarrow> (Inl (os_exception e p), w)
         | Inr (Node k (File old)) \<Rightarrow> (Inr (), w\<lparr>files := (files w)(key_path k \<mapsto> File d)\<rparr>)
         | Inr (Node k Dir) \<Rightarrow> (Inl (IsADirectoryError p), w)
         | Inr (Node k Locked_dir) \<Rightarrow> (Inl (IsADirectoryError p), w)
         | Inr (Free k) \<Rightarrow> (Inr (), w\<lparr>files := (files w)(key_path k \<mapsto> File d)\<rparr>)))"

text \<open>\<^verbatim>\<open>open(p, 'r')\<close> with the read that follows it.\<close>

definition read_file :: "env \<Rightarrow> string \<Rightarrow> file_data prog" where
  "read_file E p w =
     (if CHR 0x00 \<in> set p then (Inl ValueError, w)
      else
        (case lookup To_find E w p of
           Inl e \<Rightarrow> (Inl (os_exception e p), w)
         | Inr (Node k (File d)) \<Rightarrow> (Inr d, w)
         | Inr (Node k Dir) \<Rightarrow> (Inl (IsADirectoryError p), w)
         | Inr (Node k Locked_dir) \<Rightarrow> (Inl (PermissionError p), w)
         | Inr (Free k) \<Rightarrow> (Inl (FileNotFoundError p), w)))"

text \<open>\<^verbatim>\<open>os.mkdir(p)\<close>: the new directory is one the process may use.\<close>

definition mkdir :: "env \<Rightarrow> string \<Rightarrow> unit prog" where
  "mkdir E p w =
     (if CHR 0x00 \<in> set p then (Inl ValueError, w)
      else
        (case lookup To_create_dir E w p of
           Inl e \<Rightarrow> (Inl (os_exception e p), w)
         | Inr (Node k n) \<Rightarrow> (Inl (FileExistsError p), w)
         | Inr (Free k) \<Rightarrow> (Inr (), w\<lparr>files := (files w)(key_path k \<mapsto> Dir)\<rparr>)))"

text \<open>
  \<^verbatim>\<open>os.makedirs(name, exist_ok=True)\<close>. Its last step is \<^verbatim>\<open>mkdir(name)\<close> in a \<^verbatim>\<open>try\<close>
  whose handler for \<^verbatim>\<open>OSError\<close> raises the exception again unless \<^verbatim>\<open>name\<close> is a
  directory. Before it, when \<^verbatim>\<open>name\<close> splits into a head and a tail and the head does not
  exist, \<^verbatim>\<open>makedirs\<close> calls itself for the head, passes over a \<^verbatim>\<open>FileExistsError\<close> of
  that call, and is done when the tail is \<^verbatim>\<open>.\<close>.
\<close>

definition mkdir_exist_ok :: "env \<Rightarrow> string \<Rightarrow> unit prog" where
  "mkdir_exist_ok E name =
     try_except (mkdir E name) is_os_error
       (\<lambda>e. seq (os_path_isdir E name) (\<lambda>is_dir. if \<not> is_dir then throw e else ok ()))"

definition split_name :: "string \<Rightarrow> string \<times> string" where
  "split_name name =
     (case path_split name of
        (head, tail) \<Rightarrow> if tail = [] then path_split head else (head, tail))"

function makedirs :: "env \<Rightarrow> string \<Rightarrow> unit prog" where
  "makedirs E name w =
     (case split_name name of
        (head, tail) \<Rightarrow>
          if head \<noteq> [] \<and> tail \<noteq> [] then
            (case os_path_exists E head w of
               (Inl e, w1) \<Rightarrow> (Inl e, w1)
             | (Inr True, w1) \<Rightarrow> mkdir_exist_ok E name w1
             | (Inr False, w1) \<Rightarrow>
                 (case makedirs E head w1 of
                    (Inl e, w2) \<Rightarrow>
                      if is_file_exists_error e then
                        (if tail = ''.'' then (Inr (), w2) else mkdir_exist_ok E name w2)
                      else (Inl e, w2)
                  | (Inr u, w2) \<Rightarrow>
                      if tail = ''.'' then (Inr (), w2) else mkdir_exist_ok E name w2))
          else mkdir_exist_ok E name w)"
  by pat_completeness auto

termination
proof (relation "measure (\<lambda>(E, name, w). length name)")
  show "wf (measure (\<lambda>(E, name, w). length name))"
    by simp
next
  fix E :: env and name :: string and w w1 :: world and head tail :: string
    and r :: "py_error + bool" and found :: bool
  assume split: "(head, tail) = split_name name" and both: "head \<noteq> [] \<and> tail \<noteq> []"
  have shorter: "length (fst (path_split q)) + length (snd (path_split q)) \<le> length q" for q
  proof -
    have a: "length (rstrip_slash h) \<le> length h" for h
      using length_dropWhile_le [of "\<lambda>c. c = CHR ''/''" "rev h"] by (simp add: rstrip_slash_def)
    have b: "length (dropWhile (\<lambda>c. c \<noteq> CHR ''/'') (rev q))
        + length (takeWhile (\<lambda>c. c \<noteq> CHR ''/'') (rev q)) = length q"
      using arg_cong [OF takeWhile_dropWhile_id [of "\<lambda>c. c \<noteq> CHR ''/''" "rev q"], of length]
      by (simp only: length_append length_rev add.commute)
    have c: "length (fst (path_split q)) \<le> length (dropWhile (\<lambda>c. c \<noteq> CHR ''/'') (rev q))"
      using a [of "rev (dropWhile (\<lambda>c. c \<noteq> CHR ''/'') (rev q))"]
      by (simp add: path_split_def Let_def)
    have d: "length (snd (path_split q)) = length (takeWhile (\<lambda>c. c \<noteq> CHR ''/'') (rev q))"
      by (simp add: path_split_def Let_def)
    from b c d show ?thesis by linarith
  qed
  from both have pos: "0 < length tail"
    by simp
  from split have split': "split_name name = (head, tail)"
    by simp
  have "length head + length tail \<le> length name"
  proof (cases "snd (path_split name) = []")
    case False
    with split' have "head = fst (path_split name)" "tail = snd (path_split name)"
      by (auto simp: split_name_def split: prod.splits)
    with shorter [of name] show ?thesis by simp
  next
    case True
    with split' have "head = fst (path_split (fst (path_split name)))"
        "tail = snd (path_split (fst (path_split name)))"
      by (auto simp: split_name_def split: prod.splits)
    with shorter [of "fst (path_split name)"] shorter [of name] show ?thesis by simp
  qed
  with pos have "length head < length name"
    by linarith
  then show "((E, head, w1), (E, name, w)) \<in> measure (\<lambda>(E, name, w). length name)"
    by simp
qed

declare makedirs.simps [simp del]

subsection \<open>Templates\<close>

definition unlines :: "string list \<Rightarrow> string" where
  "unlines ls = concat (map (\<lambda>l. l @ [CHR 0x0A]) ls)"

text \<open>
  The two template texts, line by line: a triple-quoted Python literal that opens with a line
  break and ends each line with one.
\<close>

definition STANDARD_PYTHON_TEMPLATE :: string where
  \<open>STANDARD_PYTHON_TEMPLATE = unlines
     ['''',
      ''[Unit]'',
      ''Description={{ description }}'',
      ''After=network.target'',
      '''',
      ''[Service]'',
      ''ExecStart=/bin/bash -c "source {{ venv_path }}/bin/activate && python3 {{ script_path }} {{ script_args }}"'',
      ''WorkingDirectory={{ working_directory }}'',
      ''User={{ user }}'',
      ''Group={{ group }}'',
      ''Restart={{ restart_policy }}'',
      ''RestartSec={{ restart_sec }}'',
      ''Environment="PATH={{ venv_path }}/bin:$PATH"'',
      ''Environment="PYTHONUNBUFFERED=1"'',
      ''{% if additional_env_vars %}{% for var in additional_env_vars %}'',
      ''Environment="{{ var }}"{% endfor %}{% endif %}'',
      '''',
      ''[Install]'',
      ''WantedBy=multi-user.target'']\<close>

definition GUNICORN_TEMPLATE :: string where
  \<open>GUNICORN_TEMPLATE = unlines
     ['''',
      ''[Unit]'',
      ''Description={{ description }}'',
      ''After=network.target'',
      '''',
      ''[Service]'',
      ''ExecStart=/bin/bash -c "source {{ venv_path }}/bin/activate && gunicorn --bind {{ bind_address }} {{ app_module }}"'',
      ''WorkingDirectory={{ working_directory }}'',
      ''User={{ user }}'',
      ''Group={{ group }}'',
      ''Restart={{ restart_policy }}'',
      ''RestartSec={{ restart_sec }}'',
      ''Environment="PATH={{ venv_path }}/bin:$PATH"'',
      ''Environment="PYTHONUNBUFFERED=1"'',
      ''{% if additional_env_vars %}{% for var in additional_env_vars %}'',
      ''Environment="{{ var }}"{% endfor %}{% endif %}'',
      '''',
      ''[Install]'',
      ''WantedBy=multi-user.target'']\<close>

record template_entry =
  t_name :: string
  t_description :: string
  t_template :: string

definition TEMPLATES :: "(string \<times> template_entry) list" where
  "TEMPLATES =
     [(''standard_python'',
       \<lparr>t_name = ''Standard Python Script'',
        t_description = ''Run a Python script in a virtual environment'',
        t_template = STANDARD_PYTHON_TEMPLATE\<rparr>),
      (''gunicorn'',
       \<lparr>t_name = ''Gunicorn Web Application'',
        t_description = ''Run a Flask/Django app with Gunicorn'',
        t_template = GUNICORN_TEMPLATE\<rparr>)]"

subsection \<open>The template engine\<close>

text \<open>
  \<^verbatim>\<open>jinja2.Template(text).render(**context)\<close> with the settings the program leaves at
  their defaults, for the constructs the two templates use: text, \<^verbatim>\<open>{{ name }}\<close>,
  \<^verbatim>\<open>{% if name %}\<close> and \<^verbatim>\<open>{% for name in name %}\<close> with their closing tags. One line
  break at the end of the text is dropped, tags leave the white space around them as it is, a
  value is put in as \<^verbatim>\<open>str\<close> gives it, without escaping, and a name that is not in the
  context is empty, false and iterates over nothing.
\<close>

datatype token = Data string | Expr_tag string | Stmt_tag string

datatype lex_mode = In_data | In_expr | In_stmt

fun emit_data :: "string \<Rightarrow> token list option \<Rightarrow> token list option" where
  "emit_data acc None = None"
| "emit_data acc (Some ts) = Some (if acc = [] then ts else Data acc # ts)"

fun lex :: "lex_mode \<Rightarrow> string \<Rightarrow> string \<Rightarrow> token list option" where
  "lex m acc [] = (if m = In_data then emit_data acc (Some []) else None)"
| "lex m acc [c] = (if m = In_data then emit_data (acc @ [c]) (Some []) else None)"
| "lex In_data acc (c # d # cs) =
     (if c = CHR ''{'' \<and> d = CHR ''{'' then emit_data acc (lex In_expr [] cs)
      else if c = CHR ''{'' \<and> d = CHR ''%'' then emit_data acc (lex In_stmt [] cs)
      else lex In_data (acc @ [c]) (d # cs))"
| "lex In_expr acc (c # d # cs) =
     (if c = CHR ''}'' \<and> d = CHR ''}'' then map_option ((#) (Expr_tag acc)) (lex In_data [] cs)
      else lex In_expr (acc @ [c]) (d # cs))"
| "lex In_stmt acc (c # d # cs) =
     (if c = CHR ''%'' \<and> d = CHR ''}'' then map_option ((#) (Stmt_tag acc)) (lex In_data [] cs)
      else lex In_stmt (acc @ [c]) (d # cs))"

datatype tnode =
    TText string
  | TVar string
  | TIf string "tnode list"
  | TFor string string "tnode list"

datatype frame = If_frame string | For_frame string string

definition tag_words :: "string \<Rightarrow> string list" where
  "tag_words s = filter (\<lambda>w. w \<noteq> []) (split_on (CHR '' '') s)"

fun build :: "token list \<Rightarrow> (frame \<times> tnode list) list \<Rightarrow> tnode list \<Rightarrow> tnode list option" where
  "build [] stack acc = (if stack = [] then Some (rev acc) else None)"
| "build (Data s # ts) stack acc = build ts stack (TText s # acc)"
| "build (Expr_tag s # ts) stack acc =
     (case tag_words s of [x] \<Rightarrow> build ts stack (TVar x # acc) | _ \<Rightarrow> None)"
| "build (Stmt_tag s # ts) stack acc =
     (let ws = tag_words s in
      if length ws = 2 \<and> ws ! 0 = ''if'' then build ts ((If_frame (ws ! 1), acc) # stack) []
      else if length ws = 4 \<and> ws ! 0 = ''for'' \<and> ws ! 2 = ''in''
        then build ts ((For_frame (ws ! 1) (ws ! 3), acc) # stack) []
      else if ws = [''endif''] then
        (case stack of
           (If_frame x, outer) # st \<Rightarrow> build ts st (TIf x (rev acc) # outer)
         | _ \<Rightarrow> None)
      else if ws = [''endfor''] then
        (case stack of
           (For_frame v x, outer) # st \<Rightarrow> build ts st (TFor v x (rev acc) # outer)
         | _ \<Rightarrow> None)
      else None)"

definition drop_trailing_newline :: "string \<Rightarrow> string" where
  "drop_trailing_newline s = (if s \<noteq> [] \<and> last s = CHR 0x0A then butlast s else s)"

definition parse_template :: "string \<Rightarrow> tnode list option" where
  "parse_template text =
     (case lex In_data [] (drop_trailing_newline text) of
        None \<Rightarrow> None
      | Some ts \<Rightarrow> build ts [] [])"

fun iter_items :: "jval option \<Rightarrow> jval list" where
  "iter_items None = []"
| "iter_items (Some (JStr s)) = map (\<lambda>c. JStr [c]) s"
| "iter_items (Some (JList xs)) = map JStr xs"

fun render_node :: "(string \<Rightarrow> jval option) \<Rightarrow> tnode \<Rightarrow> string"
  and render_nodes :: "(string \<Rightarrow> jval option) \<Rightarrow> tnode list \<Rightarrow> string" where
  "render_node ctx (TText s) = s"
| "render_node ctx (TVar x) = (case ctx x of None \<Rightarrow> [] | Some v \<Rightarrow> py_str v)"
| "render_node ctx (TIf x body) = (if py_truthy (ctx x) then render_nodes ctx body else [])"
| "render_node ctx (TFor v x body) =
     concat (map (\<lambda>item. render_nodes (ctx(v \<mapsto> item)) body) (iter_items (ctx x)))"
| "render_nodes ctx [] = []"
| "render_nodes ctx (n # ns) = render_node ctx n @ render_nodes ctx ns"

text \<open>Rendering a template text with a dict as context; \<^verbatim>\<open>None\<close> is a syntax error.\<close>

definition render :: "string \<Rightarrow> service_info \<Rightarrow> string option" where
  "render text context = map_option (render_nodes (map_of context)) (parse_template text)"

subsection \<open>Validation\<close>

text \<open>
  \<^verbatim>\<open>validate_python_script\<close>: \<^verbatim>\<open>path\<close> stands for the \<^verbatim>\<open>Path\<close> object, which asks the
  system with \<^verbatim>\<open>str(path)\<close>. An exception of \<^verbatim>\<open>exists\<close> or \<^verbatim>\<open>is_file\<close> leaves the
  function: it has no handler.
\<close>

definition validate_python_script :: "env \<Rightarrow> string \<Rightarrow> (bool \<times> string) prog" where
  "validate_python_script E script_path =
     (let path = pathlib_str script_path in
      seq (path_exists E path) (\<lambda>found.
      if \<not> found then ok (False, ''Script '' @ script_path @ '' does not exist'')
      else
        seq (path_is_file E path) (\<lambda>is_file.
        if \<not> is_file then ok (False, script_path @ '' is not a file'')
        else ok (True, ''Script is valid''))))"

definition validate_venv :: "env \<Rightarrow> string \<Rightarrow> (bool \<times> string) prog" where
  "validate_venv E venv_path =
     (let activate_script = path_join venv_path [''bin'', ''activate''] in
      seq (os_path_exists E activate_script) (\<lambda>found.
      if \<not> found then ok (False, ''Virtual environment not found at '' @ venv_path)
      else ok (True, ''Virtual environment is valid'')))"

subsection \<open>Writing, deploying and starting a unit\<close>

text \<open>
  \<^verbatim>\<open>create_service_file\<close>. A list is not hashable, so \<^verbatim>\<open>template_name not in TEMPLATES\<close>
  raises \<^verbatim>\<open>TypeError\<close> for one; the handler turns every exception into a failure.
\<close>

definition create_service_file :: "env \<Rightarrow> jval \<Rightarrow> jval \<Rightarrow> service_info \<Rightarrow> string \<Rightarrow> (bool \<times> string) prog" where
  "create_service_file E service_name template_name context output_dir =
     try_except
       (case template_name of
          JList _ \<Rightarrow> throw TypeError
        | JStr t \<Rightarrow>
            (case map_of TEMPLATES t of
               None \<Rightarrow> ok (False, ''Unknown template: '' @ py_str template_name)
             | Some entry \<Rightarrow>
                 (case render (t_template entry) context of
                    None \<Rightarrow> throw TemplateSyntaxError
                  | Some service_content \<Rightarrow>
                      seq (makedirs E output_dir) (\<lambda>_.
                      let service_path = path_join output_dir [py_str service_name @ ''.service''] in
                      seq (write_file E service_path (Text_data service_content)) (\<lambda>_.
                      ok (True, service_path))))))
       is_exception
       (\<lambda>e. ok (False, exc_str E e))"

definition deploy_service :: "env \<Rightarrow> jval \<Rightarrow> string \<Rightarrow> (bool \<times> string) prog" where
  "deploy_service E service_name service_path =
     try_except
       (seq (run_checked E [''sudo'', ''cp'', service_path,
                            ''/etc/systemd/system/'' @ py_str service_name @ ''.service'']) (\<lambda>_.
        seq (run_checked E [''sudo'', ''systemctl'', ''daemon-reload'']) (\<lambda>_.
        ok (True, ''Service '' @ py_str service_name @ '' deployed successfully''))))
       is_called_process_error
       (\<lambda>e. ok (False, ''Failed to deploy service: '' @ exc_str E e))"

text \<open>
  \<^verbatim>\<open>enable_service\<close>. The name is an element of the command line, which
  \<^verbatim>\<open>subprocess.run\<close> refuses with \<^verbatim>\<open>TypeError\<close> when it is a list.
\<close>

definition enable_service :: "env \<Rightarrow> jval \<Rightarrow> (bool \<times> string) prog" where
  "enable_service E service_name =
     try_except
       (case service_name of
          JList _ \<Rightarrow> throw TypeError
        | JStr n \<Rightarrow>
            seq (run_checked E [''sudo'', ''systemctl'', ''enable'', n]) (\<lambda>_.
            seq (run_checked E [''sudo'', ''systemctl'', ''start'', n]) (\<lambda>_.
            seq (run E [''systemctl'', ''is-active'', n]) (\<lambda>result.
            if py_strip (snd result) = ''active''
              then ok (True, ''Service '' @ n @ '' is now active and enabled at boot'')
            else ok (False, ''Service '' @ n @ '' is not active, check logs with: sudo journalctl -u '' @ n)))))
       is_called_process_error
       (\<lambda>e. ok (False, ''Failed to enable/start service: '' @ exc_str E e))"

definition check_service_status :: "env \<Rightarrow> jval \<Rightarrow> (bool \<times> string) prog" where
  "check_service_status E service_name =
     try_except
       (case service_name of
          JList _ \<Rightarrow> throw TypeError
        | JStr n \<Rightarrow>
            seq (run E [''systemctl'', ''status'', n]) (\<lambda>result. ok (True, snd result)))
       is_called_process_error
       (\<lambda>e. ok (False, ''Failed to get status for '' @ py_str service_name))"

subsection \<open>Tokenizing the environment-variable line\<close>

text \<open>
  \<^verbatim>\<open>parse_env_vars\<close>: the \<^verbatim>\<open>for char in env_string\<close> loop, with the loop variables
  \<^verbatim>\<open>parts\<close>, \<^verbatim>\<open>current\<close> and \<^verbatim>\<open>in_quotes\<close> as arguments.
\<close>

fun parse_env_loop :: "string \<Rightarrow> string list \<Rightarrow> string \<Rightarrow> bool \<Rightarrow> string list \<times> string" where
  "parse_env_loop [] parts current in_quotes = (parts, current)"
| "parse_env_loop (c # cs) parts current in_quotes =
     (if c = CHR 0x22 then parse_env_loop cs parts (current @ [c]) (\<not> in_quotes)
      else if c = CHR '' '' \<and> \<not> in_quotes then
        (if current \<noteq> [] then parse_env_loop cs (parts @ [current]) [] in_quotes
         else parse_env_loop cs parts current in_quotes)
      else parse_env_loop cs parts (current @ [c]) in_quotes)"

definition parse_env_vars :: "string \<Rightarrow> string list" where
  "parse_env_vars env_string =
     (if env_string = [] then []
      else (case parse_env_loop env_string [] [] False of
              (parts, current) \<Rightarrow> if current \<noteq> [] then parts @ [current] else parts))"

subsection \<open>The config store\<close>

text \<open>\<^verbatim>\<open>save_service_config\<close>; \<^verbatim>\<open>service_info['name']\<close> raises \<^verbatim>\<open>KeyError\<close> for a dict without the key.\<close>

definition save_service_config :: "env \<Rightarrow> service_info \<Rightarrow> string option \<Rightarrow> string prog" where
  "save_service_config E service_info path_arg =
     seq (case path_arg of
            Some p \<Rightarrow> ok p
          | None \<Rightarrow>
              (let config_dir = expanduser E ''~/.config/pysysddeploy'' in
               seq (makedirs E config_dir) (\<lambda>_.
               seq (lift (dict_index service_info ''name'')) (\<lambda>name.
               ok (path_join config_dir [py_str name @ ''.json'']))))) (\<lambda>path.
     seq (write_file E path (Json_data service_info)) (\<lambda>_.
     ok path))"

text \<open>
  \<^verbatim>\<open>load_service_config\<close>; with neither a name nor a path, \<^verbatim>\<open>os.path.exists(None)\<close> raises
  \<^verbatim>\<open>TypeError\<close>.
\<close>

definition load_service_config :: "env \<Rightarrow> string option \<Rightarrow> string option \<Rightarrow> service_info option prog" where
  "load_service_config E name_arg path_arg =
     (let path = (case (path_arg, name_arg) of
                    (None, Some n) \<Rightarrow> Some (expanduser E (''~/.config/pysysddeploy/'' @ n @ ''.json''))
                  | _ \<Rightarrow> path_arg) in
      case path of
        None \<Rightarrow> throw TypeError
      | Some p \<Rightarrow>
          seq (os_path_exists E p) (\<lambda>found.
          if \<not> found then ok None
          else seq (read_file E p) (\<lambda>d.
                 case d of
                   Text_data _ \<Rightarrow> throw JSONDecodeError
                 | Json_data info \<Rightarrow> ok (Some info))))"

subsection \<open>The preview\<close>

definition preview_service_file :: "jval \<Rightarrow> service_info \<Rightarrow> unit prog" where
  "preview_service_file template_name context =
     (case template_name of
        JList _ \<Rightarrow> throw TypeError
      | JStr t \<Rightarrow>
          (case map_of TEMPLATES t of
             None \<Rightarrow> print (''Unknown template: '' @ py_str template_name)
           | Some entry \<Rightarrow>
               (case render (t_template entry) context of
                  None \<Rightarrow> throw TemplateSyntaxError
                | Some service_content \<Rightarrow>
                    print_all [''\<newline>=== Service File Preview ==='',
                               service_content,
                               ''===========================''])))"

subsection \<open>The interactive wizard\<close>

definition ask :: "string \<Rightarrow> string prog" where
  "ask prompt = seq (input_line prompt) (\<lambda>l. ok (py_strip l))"

definition list_index :: "'a list \<Rightarrow> nat \<Rightarrow> py_error + 'a" where
  "list_index xs i = (if i < length xs then Inr (xs ! i) else Inl IndexError)"

fun enumerate_from :: "nat \<Rightarrow> 'a list \<Rightarrow> (nat \<times> 'a) list" where
  "enumerate_from i [] = []"
| "enumerate_from i (x # xs) = (i, x) # enumerate_from (Suc i) xs"

text \<open>The index the wizard takes from the answer to the template menu.\<close>

definition template_index :: "string \<Rightarrow> py_error + nat" where
  "template_index template_choice =
     (if template_choice \<noteq> [] \<and> py_isdigit template_choice then
        (case py_int template_choice of
           Inl e \<Rightarrow> Inl e
         | Inr n \<Rightarrow> Inr (if 0 \<le> n - 1 \<and> n - 1 < int (length TEMPLATES) then nat (n - 1) else 0))
      else Inr 0)"

definition choose_template :: "service_info \<Rightarrow> (string \<times> service_info) prog" where
  "choose_template service_info =
     seq (print ''\<newline>Available templates:'') (\<lambda>_.
     seq (print_all (map (\<lambda>(i, (template_id, template_data)).
             str_nat i @ '') '' @ t_name template_data @ '' - '' @ t_description template_data)
           (enumerate_from 1 TEMPLATES))) (\<lambda>_.
     seq (ask (''Select template [1-'' @ str_nat (length TEMPLATES) @ '']: '')) (\<lambda>template_choice.
     seq (lift (template_index template_choice)) (\<lambda>template_idx.
     seq (lift (list_index (map fst TEMPLATES) template_idx)) (\<lambda>template_id.
     ok (template_id, dict_set service_info ''template'' (JStr template_id)))))))"

definition ask_directories :: "env \<Rightarrow> service_info \<Rightarrow> service_info prog" where
  "ask_directories E service_info =
     (let default_dir = cwd E in
      seq (ask (''Working directory [default: '' @ default_dir @ '']: '')) (\<lambda>working_dir.
      seq (ask ''Path to virtual environment (e.g., /path/to/venv): '') (\<lambda>venv_path.
      ok (dict_set
            (dict_set service_info ''working_directory''
               (JStr (if working_dir \<noteq> [] then working_dir else default_dir)))
            ''venv_path'' (JStr (abspath E (expanduser E venv_path)))))))"

definition ask_template_fields :: "env \<Rightarrow> string \<Rightarrow> service_info \<Rightarrow> service_info prog" where
  "ask_template_fields E template_id service_info =
     (if template_id = ''standard_python'' then
        seq (ask ''Full path to Python script: '') (\<lambda>script_path.
        seq (ask ''Script arguments (if any): '') (\<lambda>script_args.
        ok (dict_set
              (dict_set service_info ''script_path'' (JStr (abspath E (expanduser E script_path))))
              ''script_args'' (JStr script_args))))
      else if template_id = ''gunicorn'' then
        seq (ask ''Bind address (e.g., 0.0.0.0:8000): '') (\<lambda>answer.
        let bind_address = (if answer \<noteq> [] then answer else ''0.0.0.0:8000'') in
        seq (ask ''App module (e.g., app:app for Flask or wsgi:application for Django): '') (\<lambda>app_module.
        ok (dict_set (dict_set service_info ''bind_address'' (JStr bind_address))
              ''app_module'' (JStr app_module))))
      else ok service_info)"

definition ask_user_group :: "env \<Rightarrow> service_info \<Rightarrow> service_info prog" where
  "ask_user_group E service_info =
     (let default_user = login E in
      seq (ask (''User to run the service [default: '' @ default_user @ '']: '')) (\<lambda>user.
      let default_group = default_user in
      seq (ask (''Group to run the service [default: '' @ default_group @ '']: '')) (\<lambda>group.
      ok (dict_set
            (dict_set service_info ''user'' (JStr (if user \<noteq> [] then user else default_user)))
            ''group'' (JStr (if group \<noteq> [] then group else default_group))))))"

definition restart_options :: "string list" where
  "restart_options =
     [''no'', ''always'', ''on-success'', ''on-failure'', ''on-abnormal'', ''on-abort'', ''on-watchdog'']"

text \<open>The index the wizard takes from the answer to the restart-policy menu.\<close>

definition restart_index :: "string \<Rightarrow> py_error + nat" where
  "restart_index restart_choice =
     (if restart_choice \<noteq> [] \<and> py_isdigit restart_choice then
        (case py_int restart_choice of
           Inl e \<Rightarrow> Inl e
         | Inr n \<Rightarrow> Inr (if 0 \<le> n \<and> n < int (length restart_options) then nat n else 1))
      else Inr 1)"

definition ask_restart :: "service_info \<Rightarrow> service_info prog" where
  "ask_restart service_info =
     seq (print ''\<newline>Restart policies:'') (\<lambda>_.
     seq (print_all (map (\<lambda>(i, policy). str_nat i @ '') '' @ policy)
           (enumerate_from 0 restart_options))) (\<lambda>_.
     seq (ask ''Select restart policy [default: 1 (always)]: '') (\<lambda>restart_choice.
     seq (lift (restart_index restart_choice)) (\<lambda>restart_idx.
     seq (lift (list_index restart_options restart_idx)) (\<lambda>restart_policy.
     seq (ask ''Restart delay in seconds [default: 3]: '') (\<lambda>answer.
     ok (dict_set (dict_set service_info ''restart_policy'' (JStr restart_policy))
           ''restart_sec'' (JStr (if answer \<noteq> [] then answer else ''3'')))))))))"

definition ask_env_vars :: "service_info \<Rightarrow> service_info prog" where
  "ask_env_vars service_info =
     seq (print ''\<newline>Additional environment variables (beyond PATH and PYTHONUNBUFFERED)'') (\<lambda>_.
     seq (print ''Format: KEY1=VALUE1 KEY2=VALUE2 (space-separated)'') (\<lambda>_.
     seq (ask ''Environment variables: '') (\<lambda>env_vars.
     ok (dict_set service_info ''additional_env_vars'' (JList (parse_env_vars env_vars))))))"

definition review_and_confirm :: "service_info \<Rightarrow> service_info prog" where
  "review_and_confirm service_info =
     seq (print ''\<newline>=== Service Configuration Summary ==='') (\<lambda>_.
     seq (print_all (map (\<lambda>(key, v). key @ '': '' @ py_str v) service_info)) (\<lambda>_.
     seq (ask ''\<newline>Does this look correct? [Y/n]: '') (\<lambda>answer.
     if py_lower answer = ''n'' then
       seq (print ''Configuration cancelled. Please run the wizard again.'') (\<lambda>_.
       throw (SystemExit 0))
     else ok service_info)))"

text \<open>\<^verbatim>\<open>gather_service_info\<close>, block by block.\<close>

definition gather_service_info :: "env \<Rightarrow> service_info prog" where
  "gather_service_info E =
     seq (print ''\<newline>=== Python Systemd Deployment Wizard ==='') (\<lambda>_.
     seq (ask ''Service name: '') (\<lambda>name.
     seq (ask ''Service description: '') (\<lambda>description.
     seq (choose_template
            (dict_set (dict_set [] ''name'' (JStr name)) ''description'' (JStr description)))
         (\<lambda>(template_id, service_info).
     seq (ask_directories E service_info) (\<lambda>service_info.
     seq (ask_template_fields E template_id service_info) (\<lambda>service_info.
     seq (ask_user_group E service_info) (\<lambda>service_info.
     seq (ask_restart service_info) (\<lambda>service_info.
     seq (ask_env_vars service_info) (\<lambda>service_info.
     review_and_confirm service_info)))))))))"

subsection \<open>The edit loop\<close>

definition edit_menu :: "service_info \<Rightarrow> string list" where
  "edit_menu service_info =
     [''\<newline>=== Edit Service Configuration ===''] @
     map (\<lambda>(i, (field, v)). str_nat i @ '') '' @ field @ '': '' @ py_str v)
       (enumerate_from 1 service_info) @
     [str_nat (length service_info + 1) @ '') Done editing'',
      ''Select field to edit [1-'' @ str_nat (length service_info + 1) @ '']: '']"

text \<open>
  One turn of \<^verbatim>\<open>while True\<close> per line read at the menu; the arguments are the dict, the
  lines still to be read and the lines printed so far.
\<close>

fun edit_loop :: "service_info \<Rightarrow> string list \<Rightarrow> string list
    \<Rightarrow> (py_error + service_info) \<times> string list \<times> string list" where
  "edit_loop service_info [] out = (Inl EOFError, [], out @ edit_menu service_info)"
| "edit_loop service_info (l # ls) out =
     (let out1 = out @ edit_menu service_info; choice = py_strip l in
      if \<not> py_isdigit choice then edit_loop service_info ls out1
      else
        (case py_int choice of
           Inl e \<Rightarrow> (Inl e, ls, out1)
         | Inr n \<Rightarrow>
             if n = int (length service_info) + 1 then (Inr service_info, ls, out1)
             else if 1 \<le> n \<and> n \<le> int (length service_info) then
               (case service_info ! nat (n - 1) of
                  (field, JList current) \<Rightarrow>
                    (let out2 = out1 @ [''Current value: '' @ join_with '' '' current,
                           ''Enter new value for '' @ field @ '' (space-separated list): ''] in
                     case ls of
                       [] \<Rightarrow> (Inl EOFError, [], out2)
                     | l2 # ls2 \<Rightarrow>
                         edit_loop (dict_set service_info field (JList (parse_env_vars (py_strip l2))))
                           ls2 out2)
                | (field, JStr current) \<Rightarrow>
                    (let out2 = out1 @ [''Enter new value for '' @ field @ '' [current: '' @ current @ '']: ''] in
                     case ls of
                       [] \<Rightarrow> (Inl EOFError, [], out2)
                     | l2 # ls2 \<Rightarrow>
                         edit_loop (if py_strip l2 \<noteq> [] then dict_set service_info field (JStr (py_strip l2))
                                    else service_info)
                           ls2 out2))
             else edit_loop service_info ls (out1 @ [''Invalid choice''])))"

definition edit_service_info :: "service_info \<Rightarrow> service_info prog" where
  "edit_service_info service_info w =
     (case edit_loop service_info (stdin w) (stdout w) of
        (r, ins, out) \<Rightarrow> (r, w\<lparr>stdin := ins, stdout := out\<rparr>))"

subsection \<open>The \<^verbatim>\<open>create\<close> command\<close>

text \<open>
  The arguments of \<^verbatim>\<open>create\<close> as \<^verbatim>\<open>argparse\<close> delivers them: an option that was not
  given is \<^verbatim>\<open>None\<close>, except \<^verbatim>\<open>--restart\<close> and \<^verbatim>\<open>--restart-sec\<close>, which have defaults.
\<close>

record args =
  arg_interactive :: bool
  arg_load :: "string option"
  arg_name :: "string option"
  arg_template :: "string option"
  arg_description :: "string option"
  arg_working_dir :: "string option"
  arg_venv_path :: "string option"
  arg_script_path :: "string option"
  arg_script_args :: "string option"
  arg_bind_address :: "string option"
  arg_app_module :: "string option"
  arg_user :: "string option"
  arg_group :: "string option"
  arg_restart :: string
  arg_restart_sec :: string
  arg_env :: "string option"
  arg_preview :: bool
  arg_edit :: bool
  arg_output :: "string option"

text \<open>An option counts as given when it is neither \<^verbatim>\<open>None\<close> nor empty; \<^verbatim>\<open>a or d\<close>.\<close>

fun given :: "string option \<Rightarrow> bool" where
  "given None = False"
| "given (Some s) = (s \<noteq> [])"

fun or_default :: "string option \<Rightarrow> string \<Rightarrow> string" where
  "or_default None d = d"
| "or_default (Some s) d = (if s \<noteq> [] then s else d)"

text \<open>How \<^verbatim>\<open>main\<close> goes on after a block: it has returned an exit status, or it continues.\<close>

datatype 'a step = Returned int | Continue 'a

text \<open>
  Command line mode, entered with a name, a template and a virtual-environment path that are
  given. The entries of the dict literal are evaluated in order; the one of \<^verbatim>\<open>'group'\<close>
  reads \<^verbatim>\<open>getpass.user\<close>, which the module \<^verbatim>\<open>getpass\<close> does not have, when \<^verbatim>\<open>--group\<close> is
  not given.
\<close>

definition command_line_mode :: "env \<Rightarrow> args \<Rightarrow> string \<Rightarrow> string \<Rightarrow> string \<Rightarrow> service_info step prog" where
  "command_line_mode E a name template venv_path =
     (if template = ''standard_python'' \<and> \<not> given (arg_script_path a) then
        seq (print ''Error: --script-path is required for standard_python template'') (\<lambda>_.
        ok (Returned 1))
      else if template = ''gunicorn'' \<and> \<not> given (arg_app_module a) then
        seq (print ''Error: --app-module is required for gunicorn template'') (\<lambda>_.
        ok (Returned 1))
      else
        seq (if given (arg_group a) then ok (or_default (arg_group a) []) else throw AttributeError)
          (\<lambda>group.
        let service_info =
              [(''name'', JStr name),
               (''description'', JStr (or_default (arg_description a) (''Python service '' @ name))),
               (''template'', JStr template),
               (''working_directory'',
                  JStr (if given (arg_working_dir a)
                        then abspath E (expanduser E (or_default (arg_working_dir a) []))
                        else cwd E)),
               (''venv_path'', JStr (abspath E (expanduser E venv_path))),
               (''user'', JStr (or_default (arg_user a) (login E))),
               (''group'', JStr group),
               (''restart_policy'', JStr (arg_restart a)),
               (''restart_sec'', JStr (arg_restart_sec a)),
               (''additional_env_vars'', JList (parse_env_vars (or_default (arg_env a) [])))]
        in
        ok (Continue
          (if template = ''standard_python'' then
             dict_set
               (dict_set service_info ''script_path''
                  (JStr (abspath E (expanduser E (or_default (arg_script_path a) [])))))
               ''script_args'' (JStr (or_default (arg_script_args a) []))
           else if template = ''gunicorn'' then
             dict_set
               (dict_set service_info ''bind_address''
                  (JStr (or_default (arg_bind_address a) ''0.0.0.0:8000'')))
               ''app_module'' (JStr (or_default (arg_app_module a) []))
           else service_info))))"

text \<open>Load or gather service info: the three ways \<^verbatim>\<open>main\<close> gets a configuration.\<close>

definition load_or_gather :: "env \<Rightarrow> args \<Rightarrow> service_info step prog" where
  "load_or_gather E a =
     (if given (arg_load a) then
        seq (load_service_config E None (arg_load a)) (\<lambda>loaded.
        case loaded of
          None \<Rightarrow>
            seq (print (''Error: Could not load configuration from '' @ or_default (arg_load a) [])) (\<lambda>_.
            ok (Returned 1))
        | Some service_info \<Rightarrow>
            seq (print (''Loaded service configuration from '' @ or_default (arg_load a) [])) (\<lambda>_.
            ok (Continue service_info)))
      else if arg_interactive a
              \<or> \<not> (given (arg_name a) \<and> given (arg_template a) \<and> given (arg_venv_path a)) then
        seq (gather_service_info E) (\<lambda>service_info. ok (Continue service_info))
      else
        command_line_mode E a (or_default (arg_name a) []) (or_default (arg_template a) [])
          (or_default (arg_venv_path a) []))"

text \<open>Validate inputs; \<^verbatim>\<open>os.path.join\<close> and \<^verbatim>\<open>Path\<close> raise \<^verbatim>\<open>TypeError\<close> for a list.\<close>

definition check_venv :: "env \<Rightarrow> service_info \<Rightarrow> unit step prog" where
  "check_venv E service_info =
     seq (lift (dict_index service_info ''venv_path'')) (\<lambda>venv_path.
     seq (print (''\<newline>Validating virtual environment at '' @ py_str venv_path @ ''...'')) (\<lambda>_.
     case venv_path of
       JList _ \<Rightarrow> throw TypeError
     | JStr p \<Rightarrow>
         seq (validate_venv E p) (\<lambda>(is_valid, message).
         if \<not> is_valid then
           seq (print (''Warning: '' @ message)) (\<lambda>_.
           seq (ask ''Virtual environment validation failed. Proceed anyway? [y/N]: '') (\<lambda>answer.
           if py_lower answer \<noteq> ''y'' then ok (Returned 1) else ok (Continue ())))
         else ok (Continue ()))))"

definition check_script :: "env \<Rightarrow> service_info \<Rightarrow> unit step prog" where
  "check_script E service_info =
     seq (lift (dict_index service_info ''template'')) (\<lambda>template.
     if template = JStr ''standard_python'' then
       seq (lift (dict_index service_info ''script_path'')) (\<lambda>script_path.
       seq (print (''Validating script at '' @ py_str script_path @ ''...'')) (\<lambda>_.
       case script_path of
         JList _ \<Rightarrow> throw TypeError
       | JStr p \<Rightarrow>
           seq (validate_python_script E p) (\<lambda>(is_valid, message).
           if \<not> is_valid then
             seq (print (''Warning: '' @ message)) (\<lambda>_.
             seq (ask ''Script validation failed. Proceed anyway? [y/N]: '') (\<lambda>answer.
             if py_lower answer \<noteq> ''y'' then ok (Returned 1) else ok (Continue ())))
           else ok (Continue ()))))
     else ok (Continue ()))"

text \<open>Preview service file if requested.\<close>

definition preview_if_requested :: "args \<Rightarrow> service_info \<Rightarrow> unit step prog" where
  "preview_if_requested a service_info =
     (if arg_preview a then
        seq (lift (dict_index service_info ''template'')) (\<lambda>template.
        seq (preview_service_file template service_info) (\<lambda>_.
        seq (ask ''\<newline>Proceed with creation? [Y/n]: '') (\<lambda>answer.
        if py_lower answer = ''n'' then ok (Returned 0) else ok (Continue ()))))
      else ok (Continue ()))"

text \<open>Deploy if requested.\<close>

definition deploy_if_requested :: "env \<Rightarrow> service_info \<Rightarrow> string \<Rightarrow> unit prog" where
  "deploy_if_requested E service_info result =
     seq (ask ''Deploy service now? [y/N]: '') (\<lambda>deploy.
     if py_lower deploy = ''y'' then
       seq (print ''Deploying service...'') (\<lambda>_.
       seq (lift (dict_index service_info ''name'')) (\<lambda>name.
       seq (deploy_service E name result) (\<lambda>(success, message).
       seq (print message) (\<lambda>_.
       if success then
         seq (ask ''Start and enable service? [Y/n]: '') (\<lambda>start.
         if py_lower start \<noteq> ''n'' then
           seq (lift (dict_index service_info ''name'')) (\<lambda>name.
           seq (enable_service E name) (\<lambda>(success, message).
           seq (print message) (\<lambda>_.
           if success then
             seq (lift (dict_index service_info ''name'')) (\<lambda>name.
             seq (check_service_status E name) (\<lambda>(_, status).
             seq (print ''\<newline>Service Status:'') (\<lambda>_.
             print status)))
           else ok ())))
         else ok ())
       else ok ()))))
     else ok ())"

text \<open>Save configuration, create the service file and show it.\<close>

definition save_and_create :: "env \<Rightarrow> args \<Rightarrow> service_info \<Rightarrow> int option prog" where
  "save_and_create E a service_info =
     seq (save_service_config E service_info None) (\<lambda>config_path.
     seq (print (''Configuration saved to: '' @ config_path)) (\<lambda>_.
     let output_dir = or_default (arg_output a) (expanduser E ''~/systemd-services'') in
     seq (print ''Creating service file...'') (\<lambda>_.
     seq (lift (dict_index service_info ''name'')) (\<lambda>name.
     seq (lift (dict_index service_info ''template'')) (\<lambda>template.
     seq (create_service_file E name template service_info output_dir) (\<lambda>(success, result).
     if \<not> success then
       seq (print (''Error creating service file: '' @ result)) (\<lambda>_. ok (Some 1))
     else
       seq (print (''Service file created at: '' @ result)) (\<lambda>_.
       seq (read_file E result) (\<lambda>d.
       seq (print ''\<newline>=== Service File ==='') (\<lambda>_.
       seq (print (file_text d)) (\<lambda>_.
       seq (print ''==================='') (\<lambda>_.
       seq (deploy_if_requested E service_info result) (\<lambda>_.
       ok None))))))))))))"

text \<open>
  The branch \<^verbatim>\<open>args.command == "create"\<close> of \<^verbatim>\<open>main\<close>; the result is the exit status
  \<^verbatim>\<open>main\<close> returns, \<^verbatim>\<open>None\<close> at the end of the branch.
\<close>

definition main_create :: "env \<Rightarrow> args \<Rightarrow> int option prog" where
  "main_create E a =
     seq (load_or_gather E a) (\<lambda>got.
     case got of
       Returned status \<Rightarrow> ok (Some status)
     | Continue service_info \<Rightarrow>
         seq (if arg_edit a \<and> service_info \<noteq> [] then edit_service_info service_info
              else ok service_info) (\<lambda>service_info.
         seq (check_venv E service_info) (\<lambda>checked.
         case checked of
           Returned status \<Rightarrow> ok (Some status)
         | Continue _ \<Rightarrow>
             seq (check_script E service_info) (\<lambda>checked.
             case checked of
               Returned status \<Rightarrow> ok (Some status)
             | Continue _ \<Rightarrow>
                 seq (preview_if_requested a service_info) (\<lambda>previewed.
                 case previewed of
                   Returned status \<Rightarrow> ok (Some status)
                 | Continue _ \<Rightarrow> save_and_create E a service_info)))))"

subsection \<open>Reading a unit text\<close>

text \<open>The lines of a text, and the line the templates emit for one environment entry.\<close>

definition lines_of :: "string \<Rightarrow> string list" where
  "lines_of s = split_on (CHR 0x0A) s"

definition env_line :: "string \<Rightarrow> string" where
  \<open>env_line entry = ''Environment="'' @ entry @ ''"''\<close>

text \<open>\<^verbatim>\<open>del d[k]\<close>: the configuration without a field.\<close>

definition dict_del :: "service_info \<Rightarrow> string \<Rightarrow> service_info" where
  "dict_del d k = filter (\<lambda>(k', v). k' \<noteq> k) d"

fun has_infix :: "string \<Rightarrow> string \<Rightarrow> bool" where
  "has_infix needle [] = (needle = [])"
| "has_infix needle (c # cs) = (take (length needle) (c # cs) = needle \<or> has_infix needle cs)"

text \<open>Command line mode is the last branch of \<^verbatim>\<open>main\<close>'s choice between its three modes.\<close>

definition in_command_line_mode :: "args \<Rightarrow> bool" where
  "in_command_line_mode a =
     (\<not> given (arg_load a) \<and> \<not> arg_interactive a
      \<and> given (arg_name a) \<and> given (arg_template a) \<and> given (arg_venv_path a))"

subsection \<open>What a run writes\<close>

text \<open>
  The name of a configuration is a non-empty string; with distinct keys, as a dict has them.
\<close>

definition non_empty_name :: "service_info \<Rightarrow> bool" where
  "non_empty_name d = (case map_of d ''name'' of Some (JStr n) \<Rightarrow> n \<noteq> [] | _ \<Rightarrow> False)"

definition well_named :: "service_info \<Rightarrow> bool" where
  "well_named d = (distinct (map fst d) \<and> non_empty_name d)"

text \<open>
  Every JSON document that is in the files of the second world and was not there, under the
  same path, in the first satisfies \<open>Q\<close>; a program writes only such documents.
\<close>

definition json_written :: "(service_info \<Rightarrow> bool) \<Rightarrow> world \<Rightarrow> world \<Rightarrow> bool" where
  "json_written Q w w' =
     (\<forall>p d. files w' p = Some (File (Json_data d)) \<and> files w p \<noteq> files w' p \<longrightarrow> Q d)"

definition writes_only :: "(service_info \<Rightarrow> bool) \<Rightarrow> 'a prog \<Rightarrow> bool" where
  "writes_only Q m = (\<forall>w. json_written Q w (snd (m w)))"

subsection \<open>A sample machine\<close>

text \<open>
  An environment and a world to run the program in: the account \<^verbatim>\<open>ops\<close> in \<^verbatim>\<open>/srv/app\<close>, with a
  virtual environment and a script there, a configuration file that someone has written
  without a name for the service, and a directory \<^verbatim>\<open>/srv/vault\<close> that is locked. The service
  manager runs every command with exit status 0 and reports every unit as active, except that
  it refuses to enable the unit \<^verbatim>\<open>broken\<close> and to start the unit \<^verbatim>\<open>stuck\<close>, and reports the
  unit \<^verbatim>\<open>idle\<close> as inactive.
\<close>

fun sample_exc_str :: "py_error \<Rightarrow> string" where
  "sample_exc_str (CalledProcessError argv status) =
     ''Command '' @ [CHR 0x27] @ py_str (JList argv) @ [CHR 0x27] @
     '' returned non-zero exit status '' @ str_nat status @ ''.''"
| "sample_exc_str (FileNotFoundError p) = ''[Errno 2] No such file or directory: '' @ py_repr p"
| "sample_exc_str (FileExistsError p) = ''[Errno 17] File exists: '' @ py_repr p"
| "sample_exc_str (IsADirectoryError p) = ''[Errno 21] Is a directory: '' @ py_repr p"
| "sample_exc_str (NotADirectoryError p) = ''[Errno 20] Not a directory: '' @ py_repr p"
| "sample_exc_str (PermissionError p) = ''[Errno 13] Permission denied: '' @ py_repr p"
| "sample_exc_str (OSError errno p) =
     ''[Errno '' @ str_nat errno @ ''] File name too long: '' @ py_repr p"
| "sample_exc_str (KeyError k) = py_repr k"
| "sample_exc_str _ = []"

definition sample_env :: env where
  "sample_env =
     \<lparr>home_dir = ''/home/ops'',
      pw_dir = (\<lambda>_. None),
      cwd = ''/srv/app'',
      login = ''ops'',
      run_result =
        (\<lambda>argv. if argv = [''sudo'', ''systemctl'', ''enable'', ''broken''] then (1, [])
                else if argv = [''sudo'', ''systemctl'', ''start'', ''stuck''] then (1, [])
                else if argv = [''systemctl'', ''is-active'', ''idle''] then (3, ''inactive'' @ [CHR 0x0A])
                else (0, ''active'' @ [CHR 0x0A])),
      exc_str = sample_exc_str\<rparr>"

definition demo_config :: "string \<Rightarrow> string list \<Rightarrow> service_info" where
  "demo_config name entries =
     [(''name'', JStr name),
      (''description'', JStr ''Python service demo''),
      (''template'', JStr ''standard_python''),
      (''working_directory'', JStr ''/srv/app''),
      (''venv_path'', JStr ''/srv/app/venv''),
      (''user'', JStr ''ops''),
      (''group'', JStr ''ops''),
      (''restart_policy'', JStr ''always''),
      (''restart_sec'', JStr ''3''),
      (''additional_env_vars'', JList entries),
      (''script_path'', JStr ''/srv/app/run.py''),
      (''script_args'', JStr [])]"

definition sample_files :: "(string \<times> node) list" where
  "sample_files =
     [(''/tmp'', Dir),
      (''/home'', Dir),
      (''/home/ops'', Dir),
      (''/srv'', Dir),
      (''/srv/vault'', Locked_dir),
      (''/srv/app'', Dir),
      (''/srv/app/run.py'', File (Text_data ''print(1)'')),
      (''/srv/app/blank.json'', File (Json_data (demo_config [] []))),
      (''/srv/app/venv'', Dir),
      (''/srv/app/venv/bin'', Dir),
      (''/srv/app/venv/bin/activate'', File (Text_data []))]"

definition sample_world :: "string list \<Rightarrow> world" where
  "sample_world input_lines =
     \<lparr>files = map_of sample_files, stdin = input_lines, stdout = [], commands = []\<rparr>"

definition no_args :: args where
  "no_args =
     \<lparr>arg_interactive = False, arg_load = None, arg_name = None, arg_template = None,
      arg_description = None, arg_working_dir = None, arg_venv_path = None,
      arg_script_path = None, arg_script_args = None, arg_bind_address = None,
      arg_app_module = None, arg_user = None, arg_group = None,
      arg_restart = ''always'', arg_restart_sec = ''3'', arg_env = None,
      arg_preview = False, arg_edit = False, arg_output = None\<rparr>"

text \<open>\<^verbatim>\<open>create --name demo --template standard_python --venv-path venv --script-path run.py\<close>\<close>

definition demo_args :: args where
  "demo_args =
     no_args\<lparr>arg_name := Some ''demo'', arg_template := Some ''standard_python'',
             arg_venv_path := Some ''venv'', arg_script_path := Some ''run.py''\<rparr>"

text \<open>
  The answers to the wizard that take every default, but for the name, the description, the
  virtual environment and the script; the last line answers the question whether to deploy.
  And the configuration the wizard builds from them.
\<close>

definition wizard_answers :: "string \<Rightarrow> string list" where
  "wizard_answers name =
     [name, ''demo service'', ''1'', '''', ''venv'', ''run.py'', '''', '''', '''', '''', '''', '''', '''',
      ''n'']"

definition wizard_config :: "string \<Rightarrow> service_info" where
  "wizard_config name =
     [(''name'', JStr name),
      (''description'', JStr ''demo service''),
      (''template'', JStr ''standard_python''),
      (''working_directory'', JStr ''/srv/app''),
      (''venv_path'', JStr ''/srv/app/venv''),
      (''script_path'', JStr ''/srv/app/run.py''),
      (''script_args'', JStr []),
      (''user'', JStr ''ops''),
      (''group'', JStr ''ops''),
      (''restart_policy'', JStr ''always''),
      (''restart_sec'', JStr ''3''),
      (''additional_env_vars'', JList [])]"

section \<open>Properties\<close>

subsection \<open>Evaluating the program\<close>

lemma str_nat_digits:
  "str_nat 0 = ''0''" "str_nat 1 = ''1''" "str_nat 2 = ''2''" "str_nat 3 = ''3''"
  "str_nat 4 = ''4''" "str_nat 5 = ''5''" "str_nat 6 = ''6''" "str_nat (Suc 0) = ''1''"
  by code_simp+

lemma parse_standard:
  \<open>parse_template STANDARD_PYTHON_TEMPLATE = Some
     ([TText ''\<newline>[Unit]\<newline>Description='', TVar ''description'',
       TText ''\<newline>After=network.target\<newline>\<newline>[Service]\<newline>ExecStart=/bin/bash -c "source '',
       TVar ''venv_path'', TText ''/bin/activate && python3 '', TVar ''script_path'',
       TText '' '', TVar ''script_args'', TText ''"\<newline>WorkingDirectory='',
       TVar ''working_directory'', TText ''\<newline>User='', TVar ''user'',
       TText ''\<newline>Group='', TVar ''group'', TText ''\<newline>Restart='',
       TVar ''restart_policy'', TText ''\<newline>RestartSec='', TVar ''restart_sec'',
       TText ''\<newline>Environment="PATH='', TVar ''venv_path'',
       TText ''/bin:$PATH"\<newline>Environment="PYTHONUNBUFFERED=1"\<newline>''] @
      [TIf ''additional_env_vars''
        [TFor ''var'' ''additional_env_vars''
          [TText ''\<newline>Environment="'', TVar ''var'', TText ''"'']]] @
      [TText ''\<newline>\<newline>[Install]\<newline>WantedBy=multi-user.target''])\<close>
  by code_simp

lemma parse_gunicorn:
  \<open>parse_template GUNICORN_TEMPLATE = Some
     ([TText ''\<newline>[Unit]\<newline>Description='', TVar ''description'',
       TText ''\<newline>After=network.target\<newline>\<newline>[Service]\<newline>ExecStart=/bin/bash -c "source '',
       TVar ''venv_path'', TText ''/bin/activate && gunicorn --bind '', TVar ''bind_address'',
       TText '' '', TVar ''app_module'', TText ''"\<newline>WorkingDirectory='',
       TVar ''working_directory'', TText ''\<newline>User='', TVar ''user'',
       TText ''\<newline>Group='', TVar ''group'', TText ''\<newline>Restart='',
       TVar ''restart_policy'', TText ''\<newline>RestartSec='', TVar ''restart_sec'',
       TText ''\<newline>Environment="PATH='', TVar ''venv_path'',
       TText ''/bin:$PATH"\<newline>Environment="PYTHONUNBUFFERED=1"\<newline>''] @
      [TIf ''additional_env_vars''
        [TFor ''var'' ''additional_env_vars''
          [TText ''\<newline>Environment="'', TVar ''var'', TText ''"'']]] @
      [TText ''\<newline>\<newline>[Install]\<newline>WantedBy=multi-user.target''])\<close>
  by code_simp

lemmas wizard_defs = gather_service_info_def choose_template_def ask_directories_def
  ask_template_fields_def ask_user_group_def ask_restart_def ask_env_vars_def
  review_and_confirm_def ask_def template_index_def restart_index_def list_index_def
  restart_options_def TEMPLATES_def

lemmas prog_defs = seq_def ok_def throw_def lift_def print_def input_line_def
  try_except_def run_def run_checked_def

lemmas string_defs = py_strip_def py_isspace_def py_lower_def py_lower_char_def py_isdigit_def
  is_digit_char_def is_decimal_char_def py_int_def decimal_value_def str_nat_digits
  split_on_def

lemmas path_defs = abspath_def normpath_def norm_step_def expanduser_def path_join_def
  path_join2_def starts_with_slash_def rstrip_slash_def path_split_def pathlib_str_def

lemmas fs_defs = key_path_def node_at_def cwd_key_def byte_length_def lookup_def sys_stat_def
  os_stat_def os_path_exists_def os_path_isdir_def path_exists_def path_is_file_def
  write_file_def read_file_def mkdir_def mkdir_exist_ok_def split_name_def makedirs.simps

lemmas main_defs = main_create_def load_or_gather_def command_line_mode_def check_venv_def
  check_script_def preview_if_requested_def save_and_create_def deploy_if_requested_def
  save_service_config_def load_service_config_def create_service_file_def validate_venv_def
  validate_python_script_def dict_index_def render_def parse_standard parse_gunicorn

lemmas sample_defs = sample_env_def sample_world_def sample_files_def no_args_def demo_args_def
  demo_config_def

lemmas eval_congs = sum.case_cong_weak prod.case_cong_weak option.case_cong_weak
  list.case_cong_weak node.case_cong_weak jval.case_cong_weak step.case_cong_weak
  file_data.case_cong_weak

subsection \<open>Lines of a text\<close>

lemma split_on_Cons:
  "split_on sep (c # s) =
     (if c = sep then [] # split_on sep s
      else (c # hd (split_on sep s)) # tl (split_on sep s))"
  by (simp add: split_on_def split: prod.splits)

lemma split_on_Nil: "split_on sep [] = [[]]"
  by (simp add: split_on_def)

lemma split_on_not_Nil: "split_on sep s \<noteq> []"
  by (simp add: split_on_def split: prod.splits)

lemma split_on_append: "split_on sep (a @ sep # b) = split_on sep a @ split_on sep b"
proof (induction a)
  case Nil
  show ?case by (simp add: split_on_Cons split_on_Nil)
next
  case (Cons c a)
  have ne: "split_on sep a \<noteq> []" by (rule split_on_not_Nil)
  show ?case
  proof (cases "c = sep")
    case True
    then show ?thesis using Cons by (simp add: split_on_Cons)
  next
    case False
    then show ?thesis using Cons ne
      by (cases "split_on sep a") (simp_all add: split_on_Cons)
  qed
qed

lemma split_on_absent: "sep \<notin> set s \<Longrightarrow> split_on sep s = [s]"
  by (induction s) (auto simp: split_on_Cons split_on_Nil)

lemma env_line_one_line: "CHR 0x0A \<notin> set v \<Longrightarrow> lines_of (env_line v) = [env_line v]"
  unfolding lines_of_def by (rule split_on_absent) (simp add: env_line_def)

lemma lines_of_append: "lines_of (a @ CHR 0x0A # b) = lines_of a @ lines_of b"
  unfolding lines_of_def by (rule split_on_append)

lemma lines_of_entries:
  assumes "\<forall>v\<in>set vars. CHR 0x0A \<notin> set v"
  shows "lines_of (h @ concat (map (\<lambda>v. CHR 0x0A # env_line v) vars)) = lines_of h @ map env_line vars"
  using assms
proof (induction vars arbitrary: h)
  case Nil
  then show ?case by simp
next
  case (Cons v vs)
  have "lines_of ((h @ CHR 0x0A # env_line v) @ concat (map (\<lambda>v. CHR 0x0A # env_line v) vs))
          = lines_of (h @ CHR 0x0A # env_line v) @ map env_line vs"
    using Cons.prems by (intro Cons.IH) simp
  moreover have "lines_of (h @ CHR 0x0A # env_line v) = lines_of h @ [env_line v]"
    using Cons.prems by (simp add: lines_of_append env_line_one_line)
  ultimately show ?case by simp
qed

lemma tail_lines:
  "lines_of ''\<newline>[Install]\<newline>WantedBy=multi-user.target''
     = ['''', ''[Install]'', ''WantedBy=multi-user.target'']"
  by (simp add: lines_of_def split_on_def)

subsection \<open>Rendering\<close>

lemma render_nodes_append: "render_nodes ctx (xs @ ys) = render_nodes ctx xs @ render_nodes ctx ys"
  by (induction xs) simp_all

lemma render_env_block:
  assumes "ctx ''additional_env_vars'' = Some (JList vars)"
  shows \<open>render_node ctx
           (TIf ''additional_env_vars''
              [TFor ''var'' ''additional_env_vars''
                 [TText ''\<newline>Environment="'', TVar ''var'', TText ''"'']])
         = concat (map (\<lambda>v. CHR 0x0A # env_line v) vars)\<close>
proof (cases "vars = []")
  case True
  then show ?thesis using assms by simp
next
  case False
  then show ?thesis using assms by (simp add: env_line_def comp_def)
qed

lemma render_env_block_absent:
  assumes "ctx ''additional_env_vars'' = None"
  shows "render_node ctx (TIf ''additional_env_vars'' body) = []"
  using assms by simp

lemma map_of_dict_del: "map_of (dict_del d k) x = (if x = k then None else map_of d x)"
  by (induction d) (auto simp: dict_del_def)

text \<open>
  The part both templates share: the block of the environment entries, then the
  \<^verbatim>\<open>[Install]\<close> section. The text before the block does not read the field.
\<close>

lemma unit_lines:
  assumes parsed: \<open>parse_template text = Some
            (pre @
             [TIf ''additional_env_vars''
               [TFor ''var'' ''additional_env_vars''
                 [TText ''\<newline>Environment="'', TVar ''var'', TText ''"'']]] @
             [TText ''\<newline>\<newline>[Install]\<newline>WantedBy=multi-user.target''])\<close>
    and same: "render_nodes (map_of (dict_del info ''additional_env_vars'')) pre
                 = render_nodes (map_of info) pre"
    and field: "map_of info ''additional_env_vars'' = Some (JList vars)"
    and one_line: "\<forall>v\<in>set vars. CHR 0x0A \<notin> set v"
  shows "\<exists>base unit.
           render text (dict_del info ''additional_env_vars'') = Some base
         \<and> render text info = Some unit
         \<and> (vars = [] \<longrightarrow> unit = base)
         \<and> lines_of unit =
             take (length (lines_of base) - 3) (lines_of base) @ map env_line vars @
             drop (length (lines_of base) - 3) (lines_of base)
         \<and> drop (length (lines_of base) - 3) (lines_of base)
             = ['''', ''[Install]'', ''WantedBy=multi-user.target'']"
proof -
  define h where "h = render_nodes (map_of info) pre"
  define tl3 where "tl3 = ''\<newline>[Install]\<newline>WantedBy=multi-user.target''"
  define block where "block = concat (map (\<lambda>v. CHR 0x0A # env_line v) vars)"
  have base: "render text (dict_del info ''additional_env_vars'') = Some (h @ CHR 0x0A # tl3)"
  proof -
    have \<open>render_node (map_of (dict_del info ''additional_env_vars''))
            (TIf ''additional_env_vars''
               [TFor ''var'' ''additional_env_vars''
                 [TText ''\<newline>Environment="'', TVar ''var'', TText ''"'']]) = []\<close>
      by (rule render_env_block_absent) (simp add: map_of_dict_del)
    then show ?thesis
      unfolding render_def parsed h_def tl3_def
      by (simp only: render_nodes_append same option.map render_nodes.simps render_node.simps(1)
            append_Nil append_Nil2 append_Cons)
  qed
  have unit: "render text info = Some (h @ block @ CHR 0x0A # tl3)"
    unfolding render_def parsed h_def tl3_def block_def
    by (simp only: render_nodes_append option.map render_nodes.simps render_node.simps(1)
          render_env_block [of "map_of info", OF field] append_Nil append_Nil2 append_Cons
          append_assoc)
  have lb: "lines_of (h @ CHR 0x0A # tl3)
              = lines_of h @ ['''', ''[Install]'', ''WantedBy=multi-user.target'']"
    by (simp add: lines_of_append tail_lines tl3_def)
  have lu: "lines_of (h @ block @ CHR 0x0A # tl3)
              = lines_of h @ map env_line vars @ ['''', ''[Install]'', ''WantedBy=multi-user.target'']"
  proof -
    have "lines_of ((h @ block) @ CHR 0x0A # tl3) = lines_of (h @ block) @ lines_of tl3"
      by (rule lines_of_append)
    then show ?thesis
      using lines_of_entries [OF one_line, of h] by (simp add: block_def tail_lines tl3_def)
  qed
  have e: "vars = [] \<longrightarrow> h @ block @ CHR 0x0A # tl3 = h @ CHR 0x0A # tl3"
    by (simp add: block_def)
  show ?thesis
    using base unit lb lu e by simp
qed

text \<open>
  C1. For either template and every configuration whose \<^verbatim>\<open>additional_env_vars\<close> is a list of
  entries without a line break: the unit text is the text rendered without the field, with
  one line \<^verbatim>\<open>Environment="entry"\<close> per entry, in order and with the entry verbatim, put in
  before its last three lines (an empty line and the \<^verbatim>\<open>[Install]\<close> section). With the empty
  list the two texts are the same, so nothing in the text comes from the field.
\<close>

theorem env_lines_rendered:
  assumes "map_of TEMPLATES t = Some entry"
      and "map_of info ''additional_env_vars'' = Some (JList vars)"
      and "\<forall>v\<in>set vars. CHR 0x0A \<notin> set v"
  shows "\<exists>base unit.
           render (t_template entry) (dict_del info ''additional_env_vars'') = Some base
         \<and> render (t_template entry) info = Some unit
         \<and> (vars = [] \<longrightarrow> unit = base)
         \<and> lines_of unit =
             take (length (lines_of base) - 3) (lines_of base) @ map env_line vars @
             drop (length (lines_of base) - 3) (lines_of base)
         \<and> drop (length (lines_of base) - 3) (lines_of base)
             = ['''', ''[Install]'', ''WantedBy=multi-user.target'']"
proof -
  from assms(1) consider
      "t_template entry = STANDARD_PYTHON_TEMPLATE" | "t_template entry = GUNICORN_TEMPLATE"
    by (auto simp: TEMPLATES_def split: if_splits)
  then show ?thesis
  proof cases
    case 1
    show ?thesis
      unfolding 1
      by (rule unit_lines [OF parse_standard _ assms(2) assms(3)]) (simp add: map_of_dict_del)
  next
    case 2
    show ?thesis
      unfolding 2
      by (rule unit_lines [OF parse_gunicorn _ assms(2) assms(3)]) (simp add: map_of_dict_del)
  qed
qed

theorem env_lines_rendered_witness:
  "\<exists>base unit.
      render STANDARD_PYTHON_TEMPLATE
        (dict_del (demo_config ''demo'' [''A=1'', ''B=two words'']) ''additional_env_vars'') = Some base
    \<and> render STANDARD_PYTHON_TEMPLATE (demo_config ''demo'' [''A=1'', ''B=two words'']) = Some unit
    \<and> lines_of unit =
        take (length (lines_of base) - 3) (lines_of base) @
        map env_line [''A=1'', ''B=two words''] @
        drop (length (lines_of base) - 3) (lines_of base)"
  using env_lines_rendered [of "''standard_python''"
      "\<lparr>t_name = ''Standard Python Script'',
        t_description = ''Run a Python script in a virtual environment'',
        t_template = STANDARD_PYTHON_TEMPLATE\<rparr>"
      "demo_config ''demo'' [''A=1'', ''B=two words'']" "[''A=1'', ''B=two words'']"]
  by (simp add: TEMPLATES_def demo_config_def) blast

text \<open>
  An entry whose value has a line break in it is one entry and two lines of the unit text,
  neither of them the line of the entry.
\<close>

lemma newline_entry_lines:
  \<open>map_option lines_of
     (render STANDARD_PYTHON_TEMPLATE (demo_config ''demo'' [''NOTE=two\<newline>lines''])) =
   Some ['''',
         ''[Unit]'',
         ''Description=Python service demo'',
         ''After=network.target'',
         '''',
         ''[Service]'',
         ''ExecStart=/bin/bash -c "source /srv/app/venv/bin/activate && python3 /srv/app/run.py "'',
         ''WorkingDirectory=/srv/app'',
         ''User=ops'',
         ''Group=ops'',
         ''Restart=always'',
         ''RestartSec=3'',
         ''Environment="PATH=/srv/app/venv/bin:$PATH"'',
         ''Environment="PYTHONUNBUFFERED=1"'',
         '''',
         ''Environment="NOTE=two'',
         ''lines"'',
         '''',
         ''[Install]'',
         ''WantedBy=multi-user.target'']\<close>
  by (simp add: render_def parse_standard demo_config_def lines_of_def split_on_def)

lemma newline_entry_base_lines:
  "map_option (length \<circ> lines_of)
     (render STANDARD_PYTHON_TEMPLATE
        (dict_del (demo_config ''demo'' [''NOTE=two\<newline>lines'']) ''additional_env_vars'')) = Some 18"
  by (simp add: render_def parse_standard demo_config_def dict_del_def lines_of_def split_on_def)

theorem env_lines_rendered_counterexample:
  "\<not> (\<exists>base unit.
         render STANDARD_PYTHON_TEMPLATE
           (dict_del (demo_config ''demo'' [''NOTE=two\<newline>lines'']) ''additional_env_vars'') = Some base
       \<and> render STANDARD_PYTHON_TEMPLATE (demo_config ''demo'' [''NOTE=two\<newline>lines'']) = Some unit
       \<and> lines_of unit =
           take (length (lines_of base) - 3) (lines_of base) @ map env_line [''NOTE=two\<newline>lines''] @
           drop (length (lines_of base) - 3) (lines_of base))"
proof
  assume "\<exists>base unit.
         render STANDARD_PYTHON_TEMPLATE
           (dict_del (demo_config ''demo'' [''NOTE=two\<newline>lines'']) ''additional_env_vars'') = Some base
       \<and> render STANDARD_PYTHON_TEMPLATE (demo_config ''demo'' [''NOTE=two\<newline>lines'']) = Some unit
       \<and> lines_of unit =
           take (length (lines_of base) - 3) (lines_of base) @ map env_line [''NOTE=two\<newline>lines''] @
           drop (length (lines_of base) - 3) (lines_of base)"
  then obtain base unit where
      b: "render STANDARD_PYTHON_TEMPLATE
            (dict_del (demo_config ''demo'' [''NOTE=two\<newline>lines'']) ''additional_env_vars'') = Some base"
    and u: "render STANDARD_PYTHON_TEMPLATE (demo_config ''demo'' [''NOTE=two\<newline>lines'']) = Some unit"
    and l: "lines_of unit =
           take (length (lines_of base) - 3) (lines_of base) @ map env_line [''NOTE=two\<newline>lines''] @
           drop (length (lines_of base) - 3) (lines_of base)"
    by blast
  from newline_entry_base_lines b have lb: "length (lines_of base) = 18" by simp
  from newline_entry_lines u have lu: "length (lines_of unit) = 20" by simp
  from l have "length (lines_of unit) = min (length (lines_of base)) (length (lines_of base) - 3)
      + (1 + (length (lines_of base) - (length (lines_of base) - 3)))"
    by (simp only: length_append length_take length_drop length_map list.size)
  with lb lu show False by simp
qed

subsection \<open>The tokenizer\<close>

text \<open>
  C3. The line \<^verbatim>\<open>KEY1=VALUE1 "KEY2=VALUE WITH SPACES"\<close> is split into exactly two tokens.
  The second token keeps its internal spaces, and the tokenizer keeps both surrounding double
  quotes verbatim in the token: the quote character toggles the quoting state and is appended
  to the current token like any other character.
\<close>

theorem parse_env_vars_quoted_example:
  \<open>parse_env_vars ''KEY1=VALUE1 "KEY2=VALUE WITH SPACES"'' =
     [''KEY1=VALUE1'', ''"KEY2=VALUE WITH SPACES"'']\<close>
  by (simp add: parse_env_vars_def)

subsection \<open>The config store\<close>

lemma expanduser_home: "expanduser E (''~/'' @ rest) = rstrip_slash (home_dir E) @ ''/'' @ rest"
  by (simp add: expanduser_def Let_def)

lemma config_path_agrees:
  assumes "\<not> starts_with_slash n"
  shows "path_join (expanduser E ''~/.config/pysysddeploy'') [n @ ''.json'']
           = expanduser E (''~/.config/pysysddeploy/'' @ n @ ''.json'')"
proof -
  have a: "expanduser E ''~/.config/pysysddeploy''
             = rstrip_slash (home_dir E) @ ''/.config/pysysddeploy''"
    using expanduser_home [of E "''.config/pysysddeploy''"] by simp
  have b: "expanduser E (''~/.config/pysysddeploy/'' @ n @ ''.json'')
             = rstrip_slash (home_dir E) @ ''/.config/pysysddeploy/'' @ n @ ''.json''"
    using expanduser_home [of E "''.config/pysysddeploy/'' @ n @ ''.json''"] by simp
  have c: "\<not> starts_with_slash (n @ ''.json'')"
    using assms by (cases n) (simp_all add: starts_with_slash_def)
  show ?thesis
    unfolding a b using c by (simp add: path_join_def path_join2_def)
qed

text \<open>
  A file that has been written is there: the path resolves to it, through the directories it
  resolved through before.
\<close>

lemma node_at_update:
  "node_at (w\<lparr>files := (files w)(key_path k \<mapsto> v)\<rparr>) j =
     (if j = [] then Some Dir else if key_path j = key_path k then Some v else node_at w j)"
  by (simp add: node_at_def)

lemma walk_Node: "walk aim w k0 cs = Inr (Node k n) \<Longrightarrow> node_at w k = Some n"
  by (induction cs arbitrary: k0) (auto split: if_splits option.splits node.splits)

lemma walk_Free: "walk aim w k0 cs = Inr (Free k) \<Longrightarrow> node_at w k = None \<and> k \<noteq> []"
  by (induction cs arbitrary: k0) (auto split: if_splits option.splits node.splits)

lemma walk_after_write:
  assumes "k \<noteq> []" and "node_at w k \<noteq> Some Dir" and "node_at w k \<noteq> Some Locked_dir"
      and "walk To_create_file w k0 cs = Inr (Node k (File old))
           \<or> walk To_create_file w k0 cs = Inr (Free k)"
  shows "walk To_find (w\<lparr>files := (files w)(key_path k \<mapsto> File d)\<rparr>) k0 cs
           = Inr (Node k (File d))"
proof -
  define w' where "w' = w\<lparr>files := (files w)(key_path k \<mapsto> File d)\<rparr>"
  have at: "node_at w' j =
      (if j = [] then Some Dir else if key_path j = key_path k then Some (File d) else node_at w j)" for j
    unfolding w'_def by (rule node_at_update)
  have dir: "node_at w' j = Some Dir" if "node_at w j = Some Dir" for j
    using that assms(1,2) unfolding at by (auto simp: node_at_def split: if_splits)
  have locked: "node_at w' j = Some Locked_dir" if "node_at w j = Some Locked_dir" for j
    using that assms(1,3) unfolding at by (auto simp: node_at_def split: if_splits)
  have here: "node_at w' k = Some (File d)"
    using assms(1) by (simp add: at)
  have "walk To_find w' k0 cs = Inr (Node k (File d))"
    using assms(4)
  proof (induction cs arbitrary: k0)
    case Nil
    then have "k0 = k"
      by (auto split: option.splits)
    with here show ?case by simp
  next
    case (Cons c cs)
    show ?case
    proof (cases "c = []")
      case True
      with Cons show ?thesis by simp
    next
      case c: False
      from Cons.prems c have k0: "node_at w k0 = Some Dir"
        by (auto split: option.splits node.splits)
      note k0' = dir [OF k0]
      show ?thesis
      proof (cases "c = ''.''")
        case True
        with Cons c k0 k0' show ?thesis by simp
      next
        case dot: False
        show ?thesis
        proof (cases "c = ''..''")
          case True
          with Cons c k0 k0' dot show ?thesis by simp
        next
          case dotdot: False
          from Cons.prems c k0 dot dotdot
          have no_slash: "\<not> (cs \<noteq> [] \<and> list_all (\<lambda>x. x = []) cs)"
            by (auto split: if_splits)
          from Cons.prems c k0 dot dotdot no_slash have short: "\<not> 255 < byte_length c"
            by (auto split: if_splits)
          show ?thesis
          proof (cases "node_at w (k0 @ [c])")
            case None
            with Cons.prems c k0 dot dotdot short no_slash have "k = k0 @ [c]" "cs = []"
              by (auto split: if_splits)
            with c k0' dot dotdot short here show ?thesis by simp
          next
            case (Some n)
            show ?thesis
            proof (cases n)
              case (File f)
              with Some Cons.prems c k0 dot dotdot short no_slash have "k = k0 @ [c]" "cs = []"
                by (auto split: if_splits)
              with c k0' dot dotdot short here show ?thesis by simp
            next
              case Dir
              with Some Cons.prems c k0 dot dotdot short no_slash
              have "walk To_create_file w (k0 @ [c]) cs = Inr (Node k (File old))
                    \<or> walk To_create_file w (k0 @ [c]) cs = Inr (Free k)"
                by (simp split: if_splits)
              from Cons.IH [OF this] show ?thesis
                using c k0' dot dotdot short dir [of "k0 @ [c]"] Some Dir by simp
            next
              case Locked_dir
              with Some Cons.prems c k0 dot dotdot short no_slash
              have "walk To_create_file w (k0 @ [c]) cs = Inr (Node k (File old))
                    \<or> walk To_create_file w (k0 @ [c]) cs = Inr (Free k)"
                by (simp split: if_splits)
              from Cons.IH [OF this] show ?thesis
                using c k0' dot dotdot short locked [of "k0 @ [c]"] Some Locked_dir by simp
            qed
          qed
        qed
      qed
    qed
  qed
  then show ?thesis
    by (simp add: w'_def)
qed

lemma write_then_read:
  assumes "write_file E p d w = (Inr u, w')"
  shows "os_path_exists E p w' = (Inr True, w') \<and> read_file E p w' = (Inr d, w')"
proof -
  from assms have nul: "CHR 0x00 \<notin> set p"
    by (auto simp: write_file_def split: if_splits)
  from assms nul obtain k old where
      r: "lookup To_create_file E w p = Inr (Node k (File old))
          \<or> lookup To_create_file E w p = Inr (Free k)"
    and w': "w' = w\<lparr>files := (files w)(key_path k \<mapsto> File d)\<rparr>"
    by (auto simp: write_file_def split: sum.splits found.splits node.splits if_splits)
  from r have size: "\<not> 4096 \<le> byte_length p" and p: "p \<noteq> []"
    by (auto simp: lookup_def split: if_splits)
  let ?k0 = "if starts_with_slash p then [] else cwd_key E"
  from r size p have walked:
      "walk To_create_file w ?k0 (split_on (CHR ''/'') p) = Inr (Node k (File old))
       \<or> walk To_create_file w ?k0 (split_on (CHR ''/'') p) = Inr (Free k)"
    by (simp add: lookup_def)
  then have at: "node_at w k = Some (File old) \<or> node_at w k = None" and k: "k \<noteq> []"
    by (auto dest: walk_Node walk_Free simp: node_at_def split: if_splits)
  from at have "node_at w k \<noteq> Some Dir" "node_at w k \<noteq> Some Locked_dir"
    by auto
  from walk_after_write [OF k this walked, of d]
  have "lookup To_find E w' p = Inr (Node k (File d))"
    using size p by (simp add: lookup_def w')
  with nul show ?thesis
    by (simp add: os_path_exists_def read_file_def os_stat_def sys_stat_def try_except_def
          seq_def ok_def)
qed

text \<open>
  The unit file that \<^verbatim>\<open>create_service_file\<close> reports as written holds the rendered text.
\<close>

lemma create_service_file_text:
  assumes "map_of TEMPLATES t = Some entry"
      and "render (t_template entry) context = Some unit"
      and "create_service_file E service_name (JStr t) context output_dir w = (Inr (True, path), w')"
  shows "read_file E path w' = (Inr (Text_data unit), w')"
proof -
  from assms obtain w1 where
    "write_file E path (Text_data unit) w1 = (Inr (), w')"
    by (auto simp: create_service_file_def try_except_def seq_def ok_def throw_def Let_def
          split: prod.splits sum.splits if_splits)
  from write_then_read [OF this] show ?thesis by simp
qed

text \<open>
  C2. A configuration whose name is a string that does not begin with a slash, once
  \<^verbatim>\<open>save_service_config\<close> has written it under its name, is what \<^verbatim>\<open>load_service_config\<close>
  returns for that name, key by key and in the same order.
\<close>

theorem config_round_trip:
  assumes "save_service_config E service_info None w = (Inr path, w')"
      and "dict_index service_info ''name'' = Inr (JStr n)"
      and "\<not> starts_with_slash n"
  shows "load_service_config E (Some n) None w' = (Inr (Some service_info), w')"
proof -
  let ?p = "expanduser E (''~/.config/pysysddeploy/'' @ n @ ''.json'')"
  from assms(1,2) obtain w1 where
    "write_file E (path_join (expanduser E ''~/.config/pysysddeploy'') [n @ ''.json''])
       (Json_data service_info) w1 = (Inr (), w')"
    by (auto simp: save_service_config_def seq_def ok_def lift_def Let_def
          split: prod.splits sum.splits)
  then have "write_file E ?p (Json_data service_info) w1 = (Inr (), w')"
    by (simp add: config_path_agrees [OF assms(3)])
  from write_then_read [OF this]
  show ?thesis
    by (simp add: load_service_config_def Let_def seq_def ok_def)
qed

lemma save_demo:
  "fst (save_service_config sample_env (demo_config ''demo'' []) None (sample_world []))
     = Inr ''/home/ops/.config/pysysddeploy/demo.json''"
  by (simp add: main_defs prog_defs path_defs fs_defs sample_defs string_defs Let_def
      cong: eval_congs)

theorem config_round_trip_witness:
  "fst (save_service_config sample_env (demo_config ''demo'' []) None (sample_world []))
     = Inr ''/home/ops/.config/pysysddeploy/demo.json''
   \<and> load_service_config sample_env (Some ''demo'') None
        (snd (save_service_config sample_env (demo_config ''demo'' []) None (sample_world [])))
     = (Inr (Some (demo_config ''demo'' [])),
        snd (save_service_config sample_env (demo_config ''demo'' []) None (sample_world [])))"
proof -
  have s: "save_service_config sample_env (demo_config ''demo'' []) None (sample_world [])
             = (Inr ''/home/ops/.config/pysysddeploy/demo.json'',
                snd (save_service_config sample_env (demo_config ''demo'' []) None (sample_world [])))"
    using save_demo by (simp add: prod_eq_iff)
  have n: "dict_index (demo_config ''demo'' []) ''name'' = Inr (JStr ''demo'')"
    by (simp add: dict_index_def demo_config_def)
  have r: "\<not> starts_with_slash ''demo''"
    by (simp add: starts_with_slash_def)
  show ?thesis
    using save_demo config_round_trip [OF s n r] by simp
qed

text \<open>
  A name that begins with a slash: \<^verbatim>\<open>os.path.join\<close> drops the config directory, so the file
  is written to \<^verbatim>\<open>/tmp/demo.json\<close>, and loading by that name looks under the config directory
  and finds nothing.
\<close>

theorem config_round_trip_counterexample:
  "fst (save_service_config sample_env (demo_config ''/tmp/demo'' []) None (sample_world []))
     = Inr ''/tmp/demo.json''
   \<and> fst (load_service_config sample_env (Some ''/tmp/demo'') None
        (snd (save_service_config sample_env (demo_config ''/tmp/demo'' []) None (sample_world []))))
     = Inr None"
  by (simp add: main_defs prog_defs path_defs fs_defs sample_defs string_defs Let_def
      cong: eval_congs)

subsection \<open>Validation\<close>

lemma os_exception_classes:
  "is_os_error (os_exception e p)"
  "\<not> is_value_error (os_exception e p)"
  "ignore_error (os_exception e p) = (e = ENOENT \<or> e = ENOTDIR)"
  by (cases e; simp)+

lemma walk_errors: "walk To_find w k cs = Inl e \<Longrightarrow> e \<noteq> EISDIR \<and> e \<noteq> EEXIST"
  by (induction cs arbitrary: k) (auto split: if_splits option.splits node.splits)

lemma sys_stat_errors: "sys_stat E w p = Inl e \<Longrightarrow> e \<noteq> EISDIR \<and> e \<noteq> EEXIST"
  by (auto simp: sys_stat_def lookup_def dest: walk_errors
        split: if_splits sum.splits found.splits)

lemma os_path_exists_result:
  "os_path_exists E p w =
     (Inr (CHR 0x00 \<notin> set p \<and> (\<exists>n. sys_stat E w p = Inr n)), w)"
  by (cases "sys_stat E w p")
     (simp_all add: os_path_exists_def os_stat_def try_except_def seq_def ok_def
        os_exception_classes)

lemma path_exists_result:
  "path_exists E p w =
     (if CHR 0x00 \<in> set p then (Inr False, w)
      else
        (case sys_stat E w p of
           Inr n \<Rightarrow> (Inr True, w)
         | Inl e \<Rightarrow>
             if e = ENOENT \<or> e = ENOTDIR then (Inr False, w) else (Inl (os_exception e p), w)))"
  by (cases "sys_stat E w p")
     (simp_all add: path_exists_def os_stat_def try_except_def seq_def ok_def throw_def
        os_exception_classes)

lemma path_is_file_result:
  "path_is_file E p w =
     (if CHR 0x00 \<in> set p then (Inr False, w)
      else
        (case sys_stat E w p of
           Inr n \<Rightarrow> (Inr (case n of File d \<Rightarrow> True | _ \<Rightarrow> False), w)
         | Inl e \<Rightarrow>
             if e = ENOENT \<or> e = ENOTDIR then (Inr False, w) else (Inl (os_exception e p), w)))"
  by (cases "sys_stat E w p")
     (simp_all add: path_is_file_def os_stat_def try_except_def seq_def ok_def throw_def
        os_exception_classes)

text \<open>
  C5. \<^verbatim>\<open>validate_venv\<close> returns an outcome and a message for every path string and raises
  nothing: success when the system finds a node for \<^verbatim>\<open>bin/activate\<close> under the root, and
  otherwise, whatever the system answers, the failure that names the root.
  \<^verbatim>\<open>validate_python_script\<close> returns an outcome and a message when the system finds the
  node of the path or answers that there is none (\<^verbatim>\<open>ENOENT\<close>, \<^verbatim>\<open>ENOTDIR\<close>, and a path that
  Python does not hand to the system): the failure \<^verbatim>\<open>does not exist\<close> with the path in it
  when there is no node, the failure \<^verbatim>\<open>is not a file\<close> for a directory, and success for a
  regular file. When the system refuses the look-up, it raises the exception of
  \<^verbatim>\<open>pathlib\<close>: \<^verbatim>\<open>PermissionError\<close> when a directory on the way is locked (\<^verbatim>\<open>EACCES\<close>), and
  \<^verbatim>\<open>OSError\<close> when a name has more than 255 bytes or the path 4096 or more
  (\<^verbatim>\<open>ENAMETOOLONG\<close>). The system gives no other answer.
\<close>

theorem validation_outcomes:
  "validate_venv E v w =
     (Inr (if CHR 0x00 \<notin> set (path_join v [''bin'', ''activate''])
              \<and> (\<exists>n. sys_stat E w (path_join v [''bin'', ''activate'']) = Inr n)
           then (True, ''Virtual environment is valid'')
           else (False, ''Virtual environment not found at '' @ v)), w)
   \<and> (CHR 0x00 \<in> set (pathlib_str p)
        \<or> sys_stat E w (pathlib_str p) = Inl ENOENT
        \<or> sys_stat E w (pathlib_str p) = Inl ENOTDIR \<longrightarrow>
      validate_python_script E p w = (Inr (False, ''Script '' @ p @ '' does not exist''), w))
   \<and> (CHR 0x00 \<notin> set (pathlib_str p)
        \<and> (sys_stat E w (pathlib_str p) = Inr Dir
           \<or> sys_stat E w (pathlib_str p) = Inr Locked_dir) \<longrightarrow>
      validate_python_script E p w = (Inr (False, p @ '' is not a file''), w))
   \<and> (CHR 0x00 \<notin> set (pathlib_str p) \<and> sys_stat E w (pathlib_str p) = Inr (File d) \<longrightarrow>
      validate_python_script E p w = (Inr (True, ''Script is valid''), w))
   \<and> (CHR 0x00 \<notin> set (pathlib_str p) \<and> sys_stat E w (pathlib_str p) = Inl EACCES \<longrightarrow>
      validate_python_script E p w = (Inl (PermissionError (pathlib_str p)), w))
   \<and> (CHR 0x00 \<notin> set (pathlib_str p) \<and> sys_stat E w (pathlib_str p) = Inl ENAMETOOLONG \<longrightarrow>
      validate_python_script E p w = (Inl (OSError 36 (pathlib_str p)), w))
   \<and> sys_stat E w (pathlib_str p) \<noteq> Inl EISDIR
   \<and> sys_stat E w (pathlib_str p) \<noteq> Inl EEXIST"
proof -
  have venv: "validate_venv E v w =
     (Inr (if CHR 0x00 \<notin> set (path_join v [''bin'', ''activate''])
              \<and> (\<exists>n. sys_stat E w (path_join v [''bin'', ''activate'']) = Inr n)
           then (True, ''Virtual environment is valid'')
           else (False, ''Virtual environment not found at '' @ v)), w)"
    by (simp add: validate_venv_def Let_def seq_def ok_def os_path_exists_result)
  have script: "validate_python_script E p w =
     (if CHR 0x00 \<in> set (pathlib_str p) then (Inr (False, ''Script '' @ p @ '' does not exist''), w)
      else
        (case sys_stat E w (pathlib_str p) of
           Inr (File d) \<Rightarrow> (Inr (True, ''Script is valid''), w)
         | Inr Dir \<Rightarrow> (Inr (False, p @ '' is not a file''), w)
         | Inr Locked_dir \<Rightarrow> (Inr (False, p @ '' is not a file''), w)
         | Inl e \<Rightarrow>
             if e = ENOENT \<or> e = ENOTDIR
             then (Inr (False, ''Script '' @ p @ '' does not exist''), w)
             else (Inl (os_exception e (pathlib_str p)), w)))"
    by (simp add: validate_python_script_def Let_def seq_def ok_def path_exists_result
          path_is_file_result
        split: sum.splits node.splits)
  have errors: "sys_stat E w (pathlib_str p) \<noteq> Inl EISDIR"
      "sys_stat E w (pathlib_str p) \<noteq> Inl EEXIST"
    using sys_stat_errors [of E w "pathlib_str p"] by auto
  show ?thesis
    using venv errors by (auto simp: script)
qed

lemma sample_look_ups:
  "sys_stat sample_env (sample_world []) (pathlib_str ''missing.py'') = Inl ENOENT"
  "sys_stat sample_env (sample_world []) (pathlib_str ''/srv/app/nonexistent/../run.py'') = Inl ENOENT"
  "sys_stat sample_env (sample_world []) (pathlib_str ''run.py/setup.py'') = Inl ENOTDIR"
  "sys_stat sample_env (sample_world []) (pathlib_str ''run.py/'') = Inr (File (Text_data ''print(1)''))"
  "sys_stat sample_env (sample_world []) (pathlib_str ''/srv/app/venv/'') = Inr Dir"
  "sys_stat sample_env (sample_world []) (path_join ''/opt/none'' [''bin'', ''activate'']) = Inl ENOENT"
  "sys_stat sample_env (sample_world []) (path_join ''/srv/vault'' [''bin'', ''activate'']) = Inl EACCES"
  "sys_stat sample_env (sample_world []) (path_join ''venv'' [''bin'', ''activate''])
     = Inr (File (Text_data []))"
  by (simp_all add: fs_defs path_defs sample_defs string_defs Let_def cong: eval_congs)

lemma sample_paths:
  "CHR 0x00 \<notin> set (pathlib_str ''missing.py'')"
  "CHR 0x00 \<notin> set (pathlib_str ''/srv/app/nonexistent/../run.py'')"
  "CHR 0x00 \<notin> set (pathlib_str ''run.py/setup.py'')"
  "CHR 0x00 \<notin> set (pathlib_str ''run.py/'')"
  "CHR 0x00 \<notin> set (pathlib_str ''/srv/app/venv/'')"
  "CHR 0x00 \<notin> set (path_join ''/opt/none'' [''bin'', ''activate''])"
  "CHR 0x00 \<notin> set (path_join ''/srv/vault'' [''bin'', ''activate''])"
  "CHR 0x00 \<notin> set (path_join ''venv'' [''bin'', ''activate''])"
  by (simp_all add: path_defs string_defs Let_def)

theorem validation_outcomes_witness:
  "validate_python_script sample_env ''missing.py'' (sample_world [])
     = (Inr (False, ''Script missing.py does not exist''), sample_world [])
   \<and> validate_python_script sample_env ''/srv/app/nonexistent/../run.py'' (sample_world [])
     = (Inr (False, ''Script /srv/app/nonexistent/../run.py does not exist''), sample_world [])
   \<and> validate_python_script sample_env ''run.py/setup.py'' (sample_world [])
     = (Inr (False, ''Script run.py/setup.py does not exist''), sample_world [])
   \<and> validate_python_script sample_env ''run.py/'' (sample_world [])
     = (Inr (True, ''Script is valid''), sample_world [])
   \<and> validate_python_script sample_env ''/srv/app/venv/'' (sample_world [])
     = (Inr (False, ''/srv/app/venv/ is not a file''), sample_world [])
   \<and> validate_venv sample_env ''/opt/none'' (sample_world [])
     = (Inr (False, ''Virtual environment not found at /opt/none''), sample_world [])
   \<and> validate_venv sample_env ''/srv/vault'' (sample_world [])
     = (Inr (False, ''Virtual environment not found at /srv/vault''), sample_world [])
   \<and> validate_venv sample_env ''venv'' (sample_world [])
     = (Inr (True, ''Virtual environment is valid''), sample_world [])"
  using
    validation_outcomes [of sample_env "''/opt/none''" "sample_world []" "''missing.py''"]
    validation_outcomes [of sample_env "''/srv/vault''" "sample_world []"
      "''/srv/app/nonexistent/../run.py''"]
    validation_outcomes [of sample_env "''venv''" "sample_world []" "''run.py/setup.py''"]
    validation_outcomes [of sample_env "''venv''" "sample_world []" "''run.py/''"
      "Text_data ''print(1)''"]
    validation_outcomes [of sample_env "''venv''" "sample_world []" "''/srv/app/venv/''"]
  by (simp add: sample_look_ups sample_paths)

text \<open>
  A script path of 300 letters, and a script path under the locked directory:
  \<^verbatim>\<open>validate_python_script\<close> raises.
\<close>

theorem validation_outcomes_counterexample:
  "fst (validate_python_script sample_env (replicate 300 (CHR ''a'')) (sample_world []))
     = Inl (OSError 36 (replicate 300 (CHR ''a'')))
   \<and> fst (validate_python_script sample_env ''/srv/vault/run.py'' (sample_world []))
     = Inl (PermissionError ''/srv/vault/run.py'')"
  by code_simp

subsection \<open>Unknown templates\<close>

text \<open>
  C8. For a template identifier other than the two of the registry, \<^verbatim>\<open>create_service_file\<close>
  returns the failure \<^verbatim>\<open>Unknown template: \<close> followed by the identifier and leaves the world
  as it was, so it writes no file; the preview prints the same message and nothing else.
\<close>

theorem unknown_template_fails:
  assumes "t \<noteq> ''standard_python''" and "t \<noteq> ''gunicorn''"
  shows "create_service_file E service_name (JStr t) context output_dir w
           = (Inr (False, ''Unknown template: '' @ t), w)
       \<and> preview_service_file (JStr t) context w
           = (Inr (), w\<lparr>stdout := stdout w @ [''Unknown template: '' @ t]\<rparr>)"
  using assms
  by (simp add: create_service_file_def preview_service_file_def TEMPLATES_def
      try_except_def ok_def print_def)

theorem unknown_template_fails_witness:
  "create_service_file sample_env (JStr ''demo'') (JStr ''flask'') (demo_config ''demo'' [])
       ''/tmp/units'' (sample_world [])
     = (Inr (False, ''Unknown template: flask''), sample_world [])
   \<and> preview_service_file (JStr ''flask'') (demo_config ''demo'' []) (sample_world [])
     = (Inr (), (sample_world [])\<lparr>stdout := stdout (sample_world []) @ [''Unknown template: flask'']\<rparr>)"
  using unknown_template_fails [of "''flask''" sample_env "JStr ''demo''" "demo_config ''demo'' []"
      "''/tmp/units''" "sample_world []"]
  by simp

subsection \<open>Enabling and starting\<close>

text \<open>
  C7. For every service name: \<^verbatim>\<open>enable_service\<close> runs the enable command first. When enable
  and start both exit with status 0 it has run enable, start and the state query, in this
  order, and it reports success if and only if the output of the query, stripped of white
  space at both ends, is \<^verbatim>\<open>active\<close>; otherwise it reports the failure that points at
  \<^verbatim>\<open>journalctl\<close>. When enable exits with another status it runs nothing more, and when start
  does it does not query the state; in both cases it reports the failure
  \<^verbatim>\<open>Failed to enable/start service: \<close> followed by the text of the exception.
\<close>

theorem enable_service_outcomes:
  "(fst (run_result E [''sudo'', ''systemctl'', ''enable'', n]) = 0
      \<and> fst (run_result E [''sudo'', ''systemctl'', ''start'', n]) = 0 \<longrightarrow>
      enable_service E (JStr n) w =
        (Inr (if py_strip (snd (run_result E [''systemctl'', ''is-active'', n])) = ''active''
              then (True, ''Service '' @ n @ '' is now active and enabled at boot'')
              else (False, ''Service '' @ n @
                           '' is not active, check logs with: sudo journalctl -u '' @ n)),
         w\<lparr>commands := commands w @
              [[''sudo'', ''systemctl'', ''enable'', n],
               [''sudo'', ''systemctl'', ''start'', n],
               [''systemctl'', ''is-active'', n]]\<rparr>))
   \<and> (fst (run_result E [''sudo'', ''systemctl'', ''enable'', n]) \<noteq> 0 \<longrightarrow>
      enable_service E (JStr n) w =
        (Inr (False, ''Failed to enable/start service: '' @
                exc_str E (CalledProcessError [''sudo'', ''systemctl'', ''enable'', n]
                  (fst (run_result E [''sudo'', ''systemctl'', ''enable'', n])))),
         w\<lparr>commands := commands w @ [[''sudo'', ''systemctl'', ''enable'', n]]\<rparr>))
   \<and> (fst (run_result E [''sudo'', ''systemctl'', ''enable'', n]) = 0
      \<and> fst (run_result E [''sudo'', ''systemctl'', ''start'', n]) \<noteq> 0 \<longrightarrow>
      enable_service E (JStr n) w =
        (Inr (False, ''Failed to enable/start service: '' @
                exc_str E (CalledProcessError [''sudo'', ''systemctl'', ''start'', n]
                  (fst (run_result E [''sudo'', ''systemctl'', ''start'', n])))),
         w\<lparr>commands := commands w @
              [[''sudo'', ''systemctl'', ''enable'', n], [''sudo'', ''systemctl'', ''start'', n]]\<rparr>))"
  by (simp add: enable_service_def try_except_def seq_def run_checked_def run_def ok_def throw_def)

theorem enable_service_outcomes_witness:
  "enable_service sample_env (JStr ''demo'') (sample_world [])
     = (Inr (True, ''Service demo is now active and enabled at boot''),
        (sample_world [])\<lparr>commands :=
           [[''sudo'', ''systemctl'', ''enable'', ''demo''],
            [''sudo'', ''systemctl'', ''start'', ''demo''],
            [''systemctl'', ''is-active'', ''demo'']]\<rparr>)
   \<and> enable_service sample_env (JStr ''idle'') (sample_world [])
     = (Inr (False, ''Service idle is not active, check logs with: sudo journalctl -u idle''),
        (sample_world [])\<lparr>commands :=
           [[''sudo'', ''systemctl'', ''enable'', ''idle''],
            [''sudo'', ''systemctl'', ''start'', ''idle''],
            [''systemctl'', ''is-active'', ''idle'']]\<rparr>)
   \<and> fst (enable_service sample_env (JStr ''stuck'') (sample_world []))
     = Inr (False, ''Failed to enable/start service: '' @
              sample_exc_str (CalledProcessError [''sudo'', ''systemctl'', ''start'', ''stuck''] 1))"
  using enable_service_outcomes [of sample_env "''demo''" "sample_world []"]
    enable_service_outcomes [of sample_env "''idle''" "sample_world []"]
    enable_service_outcomes [of sample_env "''stuck''" "sample_world []"]
  by (simp add: sample_env_def sample_world_def py_strip_def py_isspace_def)

text \<open>
  A unit that the service manager refuses to enable: the operation reports a failure whose
  message does not mention \<^verbatim>\<open>journalctl\<close>, and it has neither started the unit nor queried
  its state.
\<close>

theorem enable_service_outcomes_counterexample:
  "(case enable_service sample_env (JStr ''broken'') (sample_world []) of
      (r, w') \<Rightarrow>
        (case r of
           Inr (success, message) \<Rightarrow> \<not> success \<and> \<not> has_infix ''journalctl'' message
         | Inl e \<Rightarrow> False)
        \<and> commands w' = [[''sudo'', ''systemctl'', ''enable'', ''broken'']])"
  by code_simp

subsection \<open>Command line mode\<close>

text \<open>
  C6. In command line mode, when the template is \<^verbatim>\<open>standard_python\<close> and no script path is
  given, or the template is \<^verbatim>\<open>gunicorn\<close> and no app module is given, \<^verbatim>\<open>create\<close> prints the
  error message that names the missing option and returns the exit status 1. Nothing else
  of the world changes: no file is written and no command is run.
\<close>

theorem missing_required_field_aborts:
  assumes "in_command_line_mode a"
      and "(arg_template a = Some ''standard_python'' \<and> \<not> given (arg_script_path a))
         \<or> (arg_template a = Some ''gunicorn'' \<and> \<not> given (arg_app_module a))"
  shows "main_create E a w =
           (Inr (Some 1),
            w\<lparr>stdout := stdout w @
               [if arg_template a = Some ''standard_python''
                then ''Error: --script-path is required for standard_python template''
                else ''Error: --app-module is required for gunicorn template'']\<rparr>)"
  using assms
  by (auto simp: main_create_def load_or_gather_def command_line_mode_def in_command_line_mode_def
        seq_def ok_def print_def)

theorem missing_required_field_aborts_witness:
  "main_create sample_env (demo_args\<lparr>arg_script_path := None\<rparr>) (sample_world [])
     = (Inr (Some 1),
        (sample_world [])\<lparr>stdout :=
           [''Error: --script-path is required for standard_python template'']\<rparr>)
   \<and> main_create sample_env
        (demo_args\<lparr>arg_template := Some ''gunicorn'', arg_script_path := None\<rparr>) (sample_world [])
     = (Inr (Some 1),
        (sample_world [])\<lparr>stdout :=
           [''Error: --app-module is required for gunicorn template'']\<rparr>)"
  using missing_required_field_aborts
      [of "demo_args\<lparr>arg_script_path := None\<rparr>" sample_env "sample_world []"]
    missing_required_field_aborts
      [of "demo_args\<lparr>arg_template := Some ''gunicorn'', arg_script_path := None\<rparr>"
          sample_env "sample_world []"]
  by (simp add: in_command_line_mode_def demo_args_def no_args_def sample_world_def)

text \<open>
  C4. In command line mode, when the fields the template requires are given and \<^verbatim>\<open>--group\<close>
  is not, building the configuration reads \<^verbatim>\<open>getpass.user\<close> and \<^verbatim>\<open>create\<close> ends with
  \<^verbatim>\<open>AttributeError\<close>; it has changed nothing by then. There is no fall back to the name of the
  current user, which the wizard takes as the default group.
\<close>

theorem group_default_raises:
  assumes "in_command_line_mode a"
      and "arg_template a = Some ''standard_python'' \<longrightarrow> given (arg_script_path a)"
      and "arg_template a = Some ''gunicorn'' \<longrightarrow> given (arg_app_module a)"
      and "\<not> given (arg_group a)"
  shows "main_create E a w = (Inl AttributeError, w)"
  using assms
  by (cases "arg_template a")
     (auto simp: main_create_def load_or_gather_def command_line_mode_def in_command_line_mode_def
        seq_def throw_def)

theorem group_default_raises_witness:
  "main_create sample_env demo_args (sample_world []) = (Inl AttributeError, sample_world [])"
  using group_default_raises [of demo_args sample_env "sample_world []"]
  by (simp add: in_command_line_mode_def demo_args_def no_args_def)

subsection \<open>The documents a run writes\<close>

lemma json_written_same: "files w' = files w \<Longrightarrow> json_written Q w w'"
  by (simp add: json_written_def)

lemma json_written_trans:
  assumes "json_written Q w w1" and "json_written Q w1 w2"
  shows "json_written Q w w2"
  unfolding json_written_def
proof (intro allI impI)
  fix p d
  assume h: "files w2 p = Some (File (Json_data d)) \<and> files w p \<noteq> files w2 p"
  show "Q d"
  proof (cases "files w1 p = files w2 p")
    case True
    with h assms(1) show ?thesis unfolding json_written_def by metis
  next
    case False
    with h assms(2) show ?thesis unfolding json_written_def by metis
  qed
qed

lemma writes_onlyI: "(\<And>w. json_written Q w (snd (m w))) \<Longrightarrow> writes_only Q m"
  by (simp add: writes_only_def)

lemma writes_onlyD: "writes_only Q m \<Longrightarrow> m w = (r, w') \<Longrightarrow> json_written Q w w'"
  by (auto simp: writes_only_def dest: spec [of _ w])

lemma writes_only_quiet: "(\<And>w. files (snd (m w)) = files w) \<Longrightarrow> writes_only Q m"
  by (simp add: writes_only_def json_written_same)

lemma writes_only_ok: "writes_only Q (ok x)"
  by (rule writes_only_quiet) (simp add: ok_def)

lemma writes_only_throw: "writes_only Q (throw e)"
  by (rule writes_only_quiet) (simp add: throw_def)

lemma writes_only_lift: "writes_only Q (lift r)"
  by (rule writes_only_quiet) (simp add: lift_def)

lemma writes_only_print: "writes_only Q (print s)"
  by (rule writes_only_quiet) (simp add: print_def)

lemma writes_only_input_line: "writes_only Q (input_line prompt)"
  by (rule writes_only_quiet) (simp add: input_line_def split: list.splits)

lemma writes_only_run: "writes_only Q (run E argv)"
  by (rule writes_only_quiet) (simp add: run_def)

lemma writes_only_read_file: "writes_only Q (read_file E p)"
  by (rule writes_only_quiet)
     (simp add: read_file_def split: sum.splits found.splits node.splits)

lemma writes_only_seq:
  assumes "writes_only Q m" and "\<And>x. writes_only Q (f x)"
  shows "writes_only Q (seq m f)"
proof (rule writes_onlyI)
  fix w
  obtain r w1 where m: "m w = (r, w1)" by (cases "m w")
  have a: "json_written Q w w1" using assms(1) m by (rule writes_onlyD)
  show "json_written Q w (snd (seq m f w))"
  proof (cases r)
    case (Inl e)
    then show ?thesis using a m by (simp add: seq_def)
  next
    case (Inr x)
    have "json_written Q w1 (snd (f x w1))"
      using assms(2) [of x] by (simp add: writes_only_def)
    with a show ?thesis using m Inr by (auto simp: seq_def intro: json_written_trans)
  qed
qed

text \<open>The same when the second program is safe for the results the first can give.\<close>

lemma writes_only_seq_result:
  assumes "writes_only Q m"
      and "\<And>w x w'. m w = (Inr x, w') \<Longrightarrow> R x"
      and "\<And>x. R x \<Longrightarrow> writes_only Q (f x)"
  shows "writes_only Q (seq m f)"
proof (rule writes_onlyI)
  fix w
  obtain r w1 where m: "m w = (r, w1)" by (cases "m w")
  have a: "json_written Q w w1" using assms(1) m by (rule writes_onlyD)
  show "json_written Q w (snd (seq m f w))"
  proof (cases r)
    case (Inl e)
    then show ?thesis using a m by (simp add: seq_def)
  next
    case (Inr x)
    with m have "R x" using assms(2) by blast
    then have "json_written Q w1 (snd (f x w1))"
      using assms(3) [of x] by (simp add: writes_only_def)
    with a show ?thesis using m Inr by (auto simp: seq_def intro: json_written_trans)
  qed
qed

lemma writes_only_try_except:
  assumes "writes_only Q body" and "\<And>e. writes_only Q (handler e)"
  shows "writes_only Q (try_except body caught handler)"
proof (rule writes_onlyI)
  fix w
  obtain r w1 where m: "body w = (r, w1)" by (cases "body w")
  have a: "json_written Q w w1" using assms(1) m by (rule writes_onlyD)
  show "json_written Q w (snd (try_except body caught handler w))"
  proof (cases r)
    case (Inr x)
    then show ?thesis using a m by (simp add: try_except_def)
  next
    case (Inl e)
    have "json_written Q w1 (snd (handler e w1))"
      using assms(2) [of e] by (simp add: writes_only_def)
    with a show ?thesis using m Inl by (auto simp: try_except_def intro: json_written_trans)
  qed
qed

lemma writes_only_if:
  "(c \<Longrightarrow> writes_only Q m) \<Longrightarrow> (\<not> c \<Longrightarrow> writes_only Q m') \<Longrightarrow> writes_only Q (if c then m else m')"
  by simp

lemma writes_only_print_all: "writes_only Q (print_all ss)"
  by (induction ss) (auto intro: writes_only_ok writes_only_seq writes_only_print)

lemma writes_only_ask: "writes_only Q (ask prompt)"
  unfolding ask_def by (intro writes_only_seq writes_only_input_line writes_only_ok)

lemma writes_only_run_checked: "writes_only Q (run_checked E argv)"
  unfolding run_checked_def
  by (intro writes_only_seq writes_only_run writes_only_if writes_only_throw writes_only_ok)

text \<open>The look-ups leave the files as they are.\<close>

lemma writes_only_os_stat: "writes_only Q (os_stat E p)"
  by (rule writes_only_quiet) (simp add: os_stat_def split: sum.splits)

lemma writes_only_os_path_exists: "writes_only Q (os_path_exists E p)"
  unfolding os_path_exists_def
  by (intro writes_only_try_except writes_only_seq writes_only_os_stat writes_only_ok)

lemma writes_only_os_path_isdir: "writes_only Q (os_path_isdir E p)"
  unfolding os_path_isdir_def
  by (intro writes_only_try_except writes_only_seq writes_only_os_stat writes_only_ok)

lemma writes_only_path_exists: "writes_only Q (path_exists E p)"
  unfolding path_exists_def
  by (intro writes_only_try_except writes_only_seq writes_only_if writes_only_os_stat
        writes_only_ok writes_only_throw)

lemma writes_only_path_is_file: "writes_only Q (path_is_file E p)"
  unfolding path_is_file_def
  by (intro writes_only_try_except writes_only_seq writes_only_if writes_only_os_stat
        writes_only_ok writes_only_throw)

lemma writes_only_validate_venv: "writes_only Q (validate_venv E venv_path)"
  unfolding validate_venv_def Let_def
  by (intro writes_only_seq writes_only_if writes_only_os_path_exists writes_only_ok)

lemma writes_only_validate_python_script: "writes_only Q (validate_python_script E script_path)"
  unfolding validate_python_script_def Let_def
  by (intro writes_only_seq writes_only_if writes_only_path_exists writes_only_path_is_file
        writes_only_ok)

text \<open>Directories and text files are no JSON documents.\<close>

lemma writes_only_mkdir: "writes_only Q (mkdir E p)"
  by (rule writes_onlyI)
     (auto simp: json_written_def mkdir_def split: sum.splits found.splits if_splits)

lemma writes_only_mkdir_exist_ok: "writes_only Q (mkdir_exist_ok E name)"
  unfolding mkdir_exist_ok_def
  by (intro writes_only_try_except writes_only_seq writes_only_if writes_only_mkdir
        writes_only_os_path_isdir writes_only_throw writes_only_ok)

lemma path_split_shorter: "length (fst (path_split q)) + length (snd (path_split q)) \<le> length q"
proof -
  have a: "length (rstrip_slash h) \<le> length h" for h
    using length_dropWhile_le [of "\<lambda>c. c = CHR ''/''" "rev h"] by (simp add: rstrip_slash_def)
  have b: "length (dropWhile (\<lambda>c. c \<noteq> CHR ''/'') (rev q))
      + length (takeWhile (\<lambda>c. c \<noteq> CHR ''/'') (rev q)) = length q"
    using arg_cong [OF takeWhile_dropWhile_id [of "\<lambda>c. c \<noteq> CHR ''/''" "rev q"], of length]
    by (simp only: length_append length_rev add.commute)
  have c: "length (fst (path_split q)) \<le> length (dropWhile (\<lambda>c. c \<noteq> CHR ''/'') (rev q))"
    using a [of "rev (dropWhile (\<lambda>c. c \<noteq> CHR ''/'') (rev q))"]
    by (simp add: path_split_def Let_def)
  have d: "length (snd (path_split q)) = length (takeWhile (\<lambda>c. c \<noteq> CHR ''/'') (rev q))"
    by (simp add: path_split_def Let_def)
  from b c d show ?thesis by linarith
qed

lemma split_name_shorter:
  assumes "split_name name = (head, tail)" and "tail \<noteq> []"
  shows "length head < length name"
proof -
  from assms(2) have pos: "0 < length tail"
    by simp
  have "length head + length tail \<le> length name"
  proof (cases "snd (path_split name) = []")
    case False
    with assms(1) have "head = fst (path_split name)" "tail = snd (path_split name)"
      by (auto simp: split_name_def split: prod.splits)
    with path_split_shorter [of name] show ?thesis by simp
  next
    case True
    with assms(1) have "head = fst (path_split (fst (path_split name)))"
        "tail = snd (path_split (fst (path_split name)))"
      by (auto simp: split_name_def split: prod.splits)
    with path_split_shorter [of "fst (path_split name)"] path_split_shorter [of name]
    show ?thesis by simp
  qed
  with pos show ?thesis
    by linarith
qed

text \<open>\<^verbatim>\<open>os.makedirs\<close> as the source has it, with its \<^verbatim>\<open>try\<close> around the call of itself.\<close>

lemma makedirs_unfold:
  "makedirs E name =
     (case split_name name of
        (head, tail) \<Rightarrow>
          if head \<noteq> [] \<and> tail \<noteq> [] then
            seq (os_path_exists E head) (\<lambda>found.
            if found then mkdir_exist_ok E name
            else
              seq (try_except (makedirs E head) is_file_exists_error (\<lambda>e. ok ())) (\<lambda>u.
              if tail = ''.'' then ok () else mkdir_exist_ok E name))
          else mkdir_exist_ok E name)"
  by (rule ext)
     (simp add: makedirs.simps [of E name] seq_def try_except_def ok_def
        split: prod.splits sum.splits bool.splits)

lemma writes_only_makedirs: "writes_only Q (makedirs E name)"
proof (induction "length name" arbitrary: name rule: less_induct)
  case less
  obtain head tail where s: "split_name name = (head, tail)"
    by (cases "split_name name")
  show ?case
  proof (cases "head \<noteq> [] \<and> tail \<noteq> []")
    case False
    then have "makedirs E name = mkdir_exist_ok E name"
      by (subst makedirs_unfold) (auto simp: s)
    then show ?thesis
      by (simp add: writes_only_mkdir_exist_ok)
  next
    case True
    then have "length head < length name"
      using split_name_shorter [OF s] by simp
    then have ih: "writes_only Q (makedirs E head)"
      by (rule less.hyps)
    have "makedirs E name =
        seq (os_path_exists E head) (\<lambda>found.
        if found then mkdir_exist_ok E name
        else
          seq (try_except (makedirs E head) is_file_exists_error (\<lambda>e. ok ())) (\<lambda>u.
          if tail = ''.'' then ok () else mkdir_exist_ok E name))"
      using True by (subst makedirs_unfold) (simp add: s)
    then show ?thesis
      by (simp only:)
         (intro writes_only_seq writes_only_if writes_only_try_except writes_only_os_path_exists
            writes_only_mkdir_exist_ok writes_only_ok ih)
  qed
qed

lemma writes_only_write_text: "writes_only Q (write_file E p (Text_data t))"
  by (rule writes_onlyI)
     (auto simp: json_written_def write_file_def
        split: sum.splits found.splits node.splits if_splits)

lemma writes_only_write_json: "Q d \<Longrightarrow> writes_only Q (write_file E p (Json_data d))"
  by (rule writes_onlyI)
     (auto simp: json_written_def write_file_def
        split: sum.splits found.splits node.splits if_splits)

lemmas writes_only_rules = writes_only_seq writes_only_try_except writes_only_if
  writes_only_ok writes_only_throw writes_only_lift writes_only_print
  writes_only_print_all writes_only_ask writes_only_input_line writes_only_run
  writes_only_run_checked writes_only_read_file writes_only_makedirs writes_only_write_text
  writes_only_os_path_exists writes_only_validate_venv writes_only_validate_python_script

lemma writes_only_enable_service: "writes_only Q (enable_service E name)"
  unfolding enable_service_def
  by (auto intro!: writes_only_rules split: jval.split)

lemma writes_only_deploy_service: "writes_only Q (deploy_service E name p)"
  unfolding deploy_service_def
  by (auto intro!: writes_only_rules)

lemma writes_only_check_service_status: "writes_only Q (check_service_status E name)"
  unfolding check_service_status_def
  by (auto intro!: writes_only_rules split: jval.split)

lemma writes_only_create_service_file:
  "writes_only Q (create_service_file E name template context output_dir)"
  unfolding create_service_file_def
  by (auto intro!: writes_only_rules split: jval.split option.split simp: Let_def)

lemma writes_only_preview_service_file: "writes_only Q (preview_service_file template context)"
  unfolding preview_service_file_def
  by (auto intro!: writes_only_rules split: jval.split option.split)

lemma writes_only_check_venv: "writes_only Q (check_venv E service_info)"
  unfolding check_venv_def
  by (auto intro!: writes_only_rules split: jval.split)

lemma writes_only_check_script: "writes_only Q (check_script E service_info)"
  unfolding check_script_def
  by (auto intro!: writes_only_rules split: jval.split)

lemma writes_only_preview_if_requested: "writes_only Q (preview_if_requested a service_info)"
  unfolding preview_if_requested_def
  by (auto intro!: writes_only_rules writes_only_preview_service_file)

lemma writes_only_deploy_if_requested: "writes_only Q (deploy_if_requested E service_info result)"
  unfolding deploy_if_requested_def
  by (auto intro!: writes_only_rules writes_only_deploy_service writes_only_enable_service
        writes_only_check_service_status)

lemma writes_only_save_service_config:
  "Q service_info \<Longrightarrow> writes_only Q (save_service_config E service_info path_arg)"
  unfolding save_service_config_def
  by (auto intro!: writes_only_rules writes_only_write_json split: option.split simp: Let_def)

lemma writes_only_save_and_create:
  "Q service_info \<Longrightarrow> writes_only Q (save_and_create E a service_info)"
  unfolding save_and_create_def
  by (auto intro!: writes_only_rules writes_only_save_service_config
        writes_only_create_service_file writes_only_deploy_if_requested simp: Let_def)

lemma writes_only_edit_service_info: "writes_only Q (edit_service_info service_info)"
  by (rule writes_only_quiet) (simp add: edit_service_info_def split: prod.splits)

lemma writes_only_command_line_mode: "writes_only Q (command_line_mode E a name template venv_path)"
  unfolding command_line_mode_def
  by (auto intro!: writes_only_rules simp: Let_def)

subsection \<open>The name through the edit loop\<close>

lemma map_of_dict_set: "map_of (dict_set d k v) = (map_of d)(k \<mapsto> v)"
  by (induction d) (auto simp: fun_eq_iff)

lemma keys_dict_set: "set (map fst (dict_set d k v)) = insert k (set (map fst d))"
proof (induction d)
  case Nil
  show ?case by simp
next
  case (Cons kv d)
  obtain k' v' where kv: "kv = (k', v')" by (cases kv)
  from Cons show ?case by (simp add: kv insert_commute)
qed

lemma distinct_dict_set: "distinct (map fst d) \<Longrightarrow> distinct (map fst (dict_set d k v))"
proof (induction d)
  case Nil
  then show ?case by simp
next
  case (Cons kv d)
  obtain k' v' where kv: "kv = (k', v')" by (cases kv)
  show ?case
  proof (cases "k' = k")
    case True
    with Cons.prems kv show ?thesis by simp
  next
    case False
    have "k' \<notin> set (map fst (dict_set d k v))"
      using Cons.prems kv False by (simp only: keys_dict_set) auto
    with Cons kv False show ?thesis by simp
  qed
qed

lemma well_named_set_str:
  assumes "well_named d" and "s \<noteq> []"
  shows "well_named (dict_set d k (JStr s))"
  using assms
  by (auto simp: well_named_def non_empty_name_def map_of_dict_set distinct_dict_set
        split: option.splits jval.splits)

lemma well_named_set_list:
  assumes "well_named d" and "i < length d" and "d ! i = (k, JList xs)"
  shows "well_named (dict_set d k (JList ys))"
proof -
  from assms have "(k, JList xs) \<in> set d"
    by (metis nth_mem)
  with assms(1) have "map_of d k = Some (JList xs)"
    by (simp add: well_named_def)
  with assms(1) have "k \<noteq> ''name''"
    by (auto simp: well_named_def non_empty_name_def)
  with assms(1) show ?thesis
    by (auto simp: well_named_def non_empty_name_def map_of_dict_set distinct_dict_set)
qed

lemma edit_loop_well_named:
  assumes "well_named service_info"
      and "edit_loop service_info ins out = (Inr edited, ins', out')"
  shows "well_named edited"
  using assms
proof (induction "length ins" arbitrary: service_info ins out rule: less_induct)
  case less
  show ?case
  proof (cases ins)
    case Nil
    with less.prems show ?thesis by simp
  next
    case (Cons l ls)
    let ?out1 = "out @ edit_menu service_info"
    let ?choice = "py_strip l"
    note run = less.prems(2) [unfolded Cons]
    have shorter: "length ls < length ins" using Cons by simp
    show ?thesis
    proof (cases "py_isdigit ?choice")
      case False
      with run have "edit_loop service_info ls ?out1 = (Inr edited, ins', out')"
        by (simp add: Let_def)
      with less.hyps [OF shorter less.prems(1)] show ?thesis by simp
    next
      case digit: True
      show ?thesis
      proof (cases "py_int ?choice")
        case (Inl e)
        with digit run show ?thesis by (simp add: Let_def)
      next
        case (Inr n)
        show ?thesis
        proof (cases "n = int (length service_info) + 1")
          case True
          with digit Inr run less.prems(1) show ?thesis by (simp add: Let_def)
        next
          case not_done: False
          show ?thesis
          proof (cases "1 \<le> n \<and> n \<le> int (length service_info)")
            case False
            with digit Inr not_done run have
              "edit_loop service_info ls (?out1 @ [''Invalid choice'']) = (Inr edited, ins', out')"
              by (simp add: Let_def)
            with less.hyps [OF shorter less.prems(1)] show ?thesis by simp
          next
            case in_range: True
            then have i: "nat (n - 1) < length service_info" by auto
            obtain field current where fc: "service_info ! nat (n - 1) = (field, current)"
              by (cases "service_info ! nat (n - 1)")
            show ?thesis
            proof (cases ls)
              case Nil
              with digit Inr not_done in_range fc run show ?thesis
                by (cases current) (simp_all add: Let_def)
            next
              case ls: (Cons l2 ls2)
              have shorter2: "length ls2 < length ins" using Cons ls by simp
              show ?thesis
              proof (cases current)
                case (JList xs)
                let ?d = "dict_set service_info field (JList (parse_env_vars (py_strip l2)))"
                from digit Inr not_done in_range fc JList ls run obtain out2 where
                  "edit_loop ?d ls2 out2 = (Inr edited, ins', out')"
                  by (simp add: Let_def)
                moreover have "well_named ?d"
                  using less.prems(1) i fc JList by (auto intro: well_named_set_list)
                ultimately show ?thesis using less.hyps [OF shorter2] by blast
              next
                case (JStr s)
                let ?d = "if py_strip l2 \<noteq> [] then dict_set service_info field (JStr (py_strip l2))
                          else service_info"
                from digit Inr not_done in_range fc JStr ls run obtain out2 where
                  "edit_loop ?d ls2 out2 = (Inr edited, ins', out')"
                  by (simp add: Let_def)
                moreover have "well_named ?d"
                  using less.prems(1) by (auto intro: well_named_set_str)
                ultimately show ?thesis using less.hyps [OF shorter2] by blast
              qed
            qed
          qed
        qed
      qed
    qed
  qed
qed

lemma edit_service_info_well_named:
  assumes "well_named service_info"
      and "edit_service_info service_info w = (Inr edited, w')"
  shows "well_named edited"
proof -
  obtain r ins out where e: "edit_loop service_info (stdin w) (stdout w) = (r, ins, out)"
    by (cases "edit_loop service_info (stdin w) (stdout w)")
  with assms(2) have "r = Inr edited"
    by (simp add: edit_service_info_def)
  with e assms(1) show ?thesis
    by (auto dest: edit_loop_well_named)
qed

subsection \<open>The name in command line mode\<close>

lemma command_line_mode_well_named:
  assumes "name \<noteq> []"
      and "command_line_mode E a name template venv_path w = (Inr (Continue service_info), w')"
  shows "well_named service_info"
  using assms
  by (auto simp: command_line_mode_def seq_def ok_def throw_def print_def Let_def
        well_named_def non_empty_name_def
      split: if_splits)

lemma load_or_gather_command_line:
  assumes "in_command_line_mode a"
  shows "load_or_gather E a =
           command_line_mode E a (or_default (arg_name a) []) (or_default (arg_template a) [])
             (or_default (arg_venv_path a) [])"
    and "or_default (arg_name a) [] \<noteq> []"
  using assms
  by (auto simp: load_or_gather_def in_command_line_mode_def elim: given.elims)

text \<open>Without \<^verbatim>\<open>--load\<close>, whatever is not command line mode is the wizard.\<close>

lemma wizard_unless_command_line:
  assumes "\<not> given (arg_load a)" and "\<not> in_command_line_mode a"
  shows "load_or_gather E a =
           seq (gather_service_info E) (\<lambda>service_info. ok (Continue service_info))"
  using assms
  by (auto simp: load_or_gather_def in_command_line_mode_def)

lemma writes_only_after_configuration:
  assumes "well_named service_info"
  shows "writes_only non_empty_name
           (seq (check_venv E service_info) (\<lambda>checked.
            case checked of
              Returned status \<Rightarrow> ok (Some status)
            | Continue _ \<Rightarrow>
                seq (check_script E service_info) (\<lambda>checked.
                case checked of
                  Returned status \<Rightarrow> ok (Some status)
                | Continue _ \<Rightarrow>
                    seq (preview_if_requested a service_info) (\<lambda>previewed.
                    case previewed of
                      Returned status \<Rightarrow> ok (Some status)
                    | Continue _ \<Rightarrow> save_and_create E a service_info))))"
proof -
  from assms have "non_empty_name service_info"
    by (simp add: well_named_def)
  then have "writes_only non_empty_name (save_and_create E a service_info)"
    by (rule writes_only_save_and_create)
  then show ?thesis
    by (auto intro!: writes_only_seq writes_only_ok writes_only_check_venv
          writes_only_check_script writes_only_preview_if_requested
        split: step.split)
qed

lemma writes_only_main_create:
  assumes "in_command_line_mode a"
  shows "writes_only non_empty_name (main_create E a)"
  unfolding main_create_def
proof (rule writes_only_seq_result
    [where R = "\<lambda>got. case got of Returned _ \<Rightarrow> True | Continue service_info \<Rightarrow> well_named service_info"])
  show "writes_only non_empty_name (load_or_gather E a)"
    unfolding load_or_gather_command_line(1) [OF assms]
    by (rule writes_only_command_line_mode)
next
  fix w got w'
  assume "load_or_gather E a w = (Inr got, w')"
  then show "case got of Returned _ \<Rightarrow> True | Continue service_info \<Rightarrow> well_named service_info"
    unfolding load_or_gather_command_line(1) [OF assms]
    using command_line_mode_well_named [OF load_or_gather_command_line(2) [OF assms]]
    by (cases got) auto
next
  fix got
  assume r: "case got of Returned _ \<Rightarrow> True | Continue service_info \<Rightarrow> well_named service_info"
  show "writes_only non_empty_name
          (case got of
             Returned status \<Rightarrow> ok (Some status)
           | Continue service_info \<Rightarrow>
               seq (if arg_edit a \<and> service_info \<noteq> [] then edit_service_info service_info
                    else ok service_info) (\<lambda>service_info.
               seq (check_venv E service_info) (\<lambda>checked.
               case checked of
                 Returned status \<Rightarrow> ok (Some status)
               | Continue _ \<Rightarrow>
                   seq (check_script E service_info) (\<lambda>checked.
                   case checked of
                     Returned status \<Rightarrow> ok (Some status)
                   | Continue _ \<Rightarrow>
                       seq (preview_if_requested a service_info) (\<lambda>previewed.
                       case previewed of
                         Returned status \<Rightarrow> ok (Some status)
                       | Continue _ \<Rightarrow> save_and_create E a service_info)))))"
  proof (cases got)
    case (Returned status)
    then show ?thesis by (simp add: writes_only_ok)
  next
    case (Continue service_info)
    with r have wn: "well_named service_info" by simp
    have "writes_only non_empty_name
            (seq (if arg_edit a \<and> service_info \<noteq> [] then edit_service_info service_info
                  else ok service_info) (\<lambda>service_info.
             seq (check_venv E service_info) (\<lambda>checked.
             case checked of
               Returned status \<Rightarrow> ok (Some status)
             | Continue _ \<Rightarrow>
                 seq (check_script E service_info) (\<lambda>checked.
                 case checked of
                   Returned status \<Rightarrow> ok (Some status)
                 | Continue _ \<Rightarrow>
                     seq (preview_if_requested a service_info) (\<lambda>previewed.
                     case previewed of
                       Returned status \<Rightarrow> ok (Some status)
                     | Continue _ \<Rightarrow> save_and_create E a service_info)))))"
    proof (rule writes_only_seq_result [where R = well_named])
      show "writes_only non_empty_name
              (if arg_edit a \<and> service_info \<noteq> [] then edit_service_info service_info
               else ok service_info)"
        by (simp add: writes_only_edit_service_info writes_only_ok)
    next
      fix w edited w'
      assume "(if arg_edit a \<and> service_info \<noteq> [] then edit_service_info service_info
               else ok service_info) w = (Inr edited, w')"
      with wn show "well_named edited"
        by (auto simp: ok_def split: if_splits dest: edit_service_info_well_named)
    next
      fix edited
      assume "well_named edited"
      then show "writes_only non_empty_name
              (seq (check_venv E edited) (\<lambda>checked.
               case checked of
                 Returned status \<Rightarrow> ok (Some status)
               | Continue _ \<Rightarrow>
                   seq (check_script E edited) (\<lambda>checked.
                   case checked of
                     Returned status \<Rightarrow> ok (Some status)
                   | Continue _ \<Rightarrow>
                       seq (preview_if_requested a edited) (\<lambda>previewed.
                       case previewed of
                         Returned status \<Rightarrow> ok (Some status)
                       | Continue _ \<Rightarrow> save_and_create E a edited))))"
        by (rule writes_only_after_configuration)
    qed
    with Continue show ?thesis by simp
  qed
qed

text \<open>
  C9. Every configuration that \<^verbatim>\<open>create\<close> writes has a non-empty string as its name, unless
  it was loaded from a file with \<^verbatim>\<open>--load\<close> or built by the wizard. For what is left, command
  line mode, the name is the \<^verbatim>\<open>--name\<close> that was given, which is not empty because the
  wizard is run when it is, or what the edit loop has put in its place, and the edit loop
  keeps the old value when the new one is empty.
\<close>

theorem written_name_non_empty:
  assumes "main_create E a w = (r, w')"
      and "files w' p = Some (File (Json_data d))"
      and "files w p \<noteq> files w' p"
  shows "(\<exists>n. map_of d ''name'' = Some (JStr n) \<and> n \<noteq> [])
       \<or> given (arg_load a)
       \<or> load_or_gather E a =
           seq (gather_service_info E) (\<lambda>service_info. ok (Continue service_info))"
proof (cases "in_command_line_mode a")
  case True
  from writes_only_main_create [OF True] assms(1)
  have "json_written non_empty_name w w'"
    by (rule writes_onlyD)
  with assms(2,3) have "non_empty_name d"
    unfolding json_written_def by blast
  then show ?thesis
    by (auto simp: non_empty_name_def split: option.splits jval.splits)
next
  case False
  then show ?thesis
    using wizard_unless_command_line [of a E] by blast
qed

lemma demo_run_writes:
  "files (snd (main_create sample_env (demo_args\<lparr>arg_group := Some ''ops''\<rparr>) (sample_world [''n''])))
     ''/home/ops/.config/pysysddeploy/demo.json''
   = Some (File (Json_data (demo_config ''demo'' [])))"
  by (simp add: main_defs wizard_defs prog_defs string_defs path_defs fs_defs sample_defs
        parse_env_vars_def Let_def
      cong: eval_congs)

text \<open>The run of \<^verbatim>\<open>demo_args\<close> does not begin with the wizard: it prints no banner.\<close>

lemma demo_run_not_wizard:
  "load_or_gather sample_env (demo_args\<lparr>arg_group := Some ''ops''\<rparr>)
     \<noteq> seq (gather_service_info sample_env) (\<lambda>service_info. ok (Continue service_info))"
proof
  assume "load_or_gather sample_env (demo_args\<lparr>arg_group := Some ''ops''\<rparr>)
     = seq (gather_service_info sample_env) (\<lambda>service_info. ok (Continue service_info))"
  then have "stdout (snd (load_or_gather sample_env (demo_args\<lparr>arg_group := Some ''ops''\<rparr>)
                 (sample_world [])))
     = stdout (snd (seq (gather_service_info sample_env)
                 (\<lambda>service_info. ok (Continue service_info)) (sample_world [])))"
    by simp
  then show False
    by (simp add: main_defs wizard_defs prog_defs string_defs path_defs sample_defs
          parse_env_vars_def Let_def
        cong: eval_congs)
qed

theorem written_name_non_empty_witness:
  "files (snd (main_create sample_env (demo_args\<lparr>arg_group := Some ''ops''\<rparr>) (sample_world [''n''])))
     ''/home/ops/.config/pysysddeploy/demo.json''
     = Some (File (Json_data (demo_config ''demo'' [])))
   \<and> files (sample_world [''n'']) ''/home/ops/.config/pysysddeploy/demo.json'' = None
   \<and> (\<exists>n. map_of (demo_config ''demo'' []) ''name'' = Some (JStr n) \<and> n \<noteq> [])"
proof -
  have l: "\<not> given (arg_load (demo_args\<lparr>arg_group := Some ''ops''\<rparr>))"
    by (simp add: demo_args_def no_args_def)
  have b: "files (sample_world [''n'']) ''/home/ops/.config/pysysddeploy/demo.json'' = None"
    by (simp add: sample_world_def sample_files_def)
  have r: "main_create sample_env (demo_args\<lparr>arg_group := Some ''ops''\<rparr>) (sample_world [''n''])
             = (fst (main_create sample_env (demo_args\<lparr>arg_group := Some ''ops''\<rparr>) (sample_world [''n''])),
                snd (main_create sample_env (demo_args\<lparr>arg_group := Some ''ops''\<rparr>) (sample_world [''n''])))"
    by simp
  have c: "files (sample_world [''n'']) ''/home/ops/.config/pysysddeploy/demo.json''
             \<noteq> files (snd (main_create sample_env (demo_args\<lparr>arg_group := Some ''ops''\<rparr>)
                               (sample_world [''n''])))
                   ''/home/ops/.config/pysysddeploy/demo.json''"
    using demo_run_writes b by simp
  from written_name_non_empty [OF r demo_run_writes c] l demo_run_not_wizard
  have "\<exists>n. map_of (demo_config ''demo'' []) ''name'' = Some (JStr n) \<and> n \<noteq> []"
    by blast
  with demo_run_writes b show ?thesis
    by simp
qed

text \<open>
  No mode checks the name. The wizard with an empty answer to \<^verbatim>\<open>Service name\<close>, and
  \<^verbatim>\<open>--load\<close> with a file whose name is empty: \<^verbatim>\<open>create\<close> writes the configuration with the
  empty name to \<^verbatim>\<open>.json\<close> in the config directory. Command line mode with the name
  \<^verbatim>\<open>../demo\<close>: \<^verbatim>\<open>create\<close> writes the configuration to a file outside the config directory.
\<close>

lemma wizard_empty_name:
  "files (snd (main_create sample_env no_args (sample_world (wizard_answers ''''))))
     ''/home/ops/.config/pysysddeploy/.json''
     = Some (File (Json_data (wizard_config '''')))"
  by (simp add: main_defs wizard_defs prog_defs string_defs path_defs fs_defs sample_defs
        wizard_answers_def wizard_config_def parse_env_vars_def Let_def
      cong: eval_congs)

lemma load_empty_name:
  "files (snd (main_create sample_env (no_args\<lparr>arg_load := Some ''blank.json''\<rparr>) (sample_world [''n''])))
     ''/home/ops/.config/pysysddeploy/.json''
     = Some (File (Json_data (demo_config '''' [])))"
  by (simp add: main_defs wizard_defs prog_defs string_defs path_defs fs_defs sample_defs
        parse_env_vars_def Let_def
      cong: eval_congs)

lemma flag_name_outside:
  "\<exists>d. files (snd (main_create sample_env
                (demo_args\<lparr>arg_name := Some ''../demo'', arg_group := Some ''ops''\<rparr>)
                (sample_world [''n''])))
          ''/home/ops/.config/demo.json'' = Some (File (Json_data d))
       \<and> map_of d ''name'' = Some (JStr ''../demo'')"
  by (simp add: main_defs wizard_defs prog_defs string_defs path_defs fs_defs sample_defs
        parse_env_vars_def Let_def
      cong: eval_congs)

theorem written_name_non_empty_counterexample:
  "files (snd (main_create sample_env no_args (sample_world (wizard_answers ''''))))
     ''/home/ops/.config/pysysddeploy/.json''
     = Some (File (Json_data (wizard_config '''')))
   \<and> map_of (wizard_config '''') ''name'' = Some (JStr '''')
   \<and> files (snd (main_create sample_env (no_args\<lparr>arg_load := Some ''blank.json''\<rparr>)
                   (sample_world [''n''])))
       ''/home/ops/.config/pysysddeploy/.json''
     = Some (File (Json_data (demo_config '''' [])))
   \<and> map_of (demo_config '''' []) ''name'' = Some (JStr '''')
   \<and> (\<exists>d. files (snd (main_create sample_env
                (demo_args\<lparr>arg_name := Some ''../demo'', arg_group := Some ''ops''\<rparr>)
                (sample_world [''n''])))
          ''/home/ops/.config/demo.json'' = Some (File (Json_data d))
       \<and> map_of d ''name'' = Some (JStr ''../demo''))
   \<and> files (sample_world (wizard_answers '''')) ''/home/ops/.config/pysysddeploy/.json'' = None
   \<and> files (sample_world [''n'']) ''/home/ops/.config/pysysddeploy/.json'' = None
   \<and> files (sample_world [''n'']) ''/home/ops/.config/demo.json'' = None"
  using wizard_empty_name load_empty_name flag_name_outside
  by (simp add: sample_world_def sample_files_def wizard_config_def demo_config_def)

subsection \<open>The menus of the wizard\<close>

text \<open>
  An answer that is empty, that has a character which is not a digit, or that is a decimal
  number outside the menu selects the first template, and the policy \<^verbatim>\<open>always\<close> at the
  restart menu.
\<close>

lemma menu_fallback:
  assumes "choice = [] \<or> \<not> py_isdigit choice
           \<or> (list_all is_decimal_char choice \<and> \<not> (1 \<le> decimal_value choice \<and> decimal_value choice \<le> 2))"
  shows "template_index choice = Inr 0"
  using assms
  by (auto simp: template_index_def py_int_def TEMPLATES_def)

lemma restart_fallback:
  assumes "choice = [] \<or> \<not> py_isdigit choice
           \<or> (list_all is_decimal_char choice \<and> \<not> (0 \<le> decimal_value choice \<and> decimal_value choice \<le> 6))"
  shows "restart_index choice = Inr 1"
  using assms
  by (auto simp: restart_index_def py_int_def restart_options_def)

text \<open>
  C10. The superscript two, U+00B2, is a digit for \<^verbatim>\<open>str.isdigit\<close> and not one for
  \<^verbatim>\<open>int\<close>: at the template menu and at the restart-policy menu the answer raises
  \<^verbatim>\<open>ValueError\<close>, and the wizard ends with it instead of falling back to the default.
\<close>

theorem superscript_choice_raises:
  "template_index [CHR 0xB2] = Inl ValueError
   \<and> restart_index [CHR 0xB2] = Inl ValueError
   \<and> fst (gather_service_info sample_env (sample_world [''demo'', ''a demo'', [CHR 0xB2]]))
       = Inl ValueError
   \<and> fst (gather_service_info sample_env
        (sample_world [''demo'', ''a demo'', ''1'', '''', ''venv'', ''run.py'', '''', '''', '''', [CHR 0xB2]]))
       = Inl ValueError"
  by (simp add: wizard_defs prog_defs string_defs path_defs sample_defs Let_def
      cong: eval_congs)

end
